theory Spec2Isabelle
  imports Complex_Main
begin

section \<open>Shared conventions\<close>

text \<open>
  Python floats are modelled as the reals, dictionaries that are only looked up as maps,
  dictionaries that are iterated as association lists in insertion order, and every
  \<^verbatim>\<open>raise\<close> as an \<open>Inl\<close> value of the type below. \<open>ShapeError\<close> is the \<^verbatim>\<open>ValueError\<close> numpy
  raises on arrays whose shapes do not fit. \<open>NotAReal\<close> is no exception: it marks a run in
  which numpy divides by the float zero and goes on with an infinity or a NaN, which has
  no value in the reals.
\<close>

datatype error =
    UnknownParameter string
  | KeyError string
  | TypeError
  | ShapeError
  | ZeroDivisionError
  | NotAReal

section \<open>Composite fusion: emi.py\<close>

definition DEFAULT_WEIGHTS :: "(string \<times> real) list" where
  "DEFAULT_WEIGHTS =
     [(''mcc'', 26 / 100), (''smg'', 19 / 100), (''twi'', 18 / 100), (''iaf'', 17 / 100),
      (''atp'', 10 / 100), (''pbdr'', 6 / 100), (''cnea'', 4 / 100)]"

record threshold =
  tmin :: real
  tmax :: real

definition CRITICAL_THRESHOLDS :: "string \<rightharpoonup> threshold" where
  "CRITICAL_THRESHOLDS = map_of
     [(''mcc'', \<lparr>tmin = 0, tmax = 1\<rparr>), (''smg'', \<lparr>tmin = 0, tmax = 1\<rparr>),
      (''twi'', \<lparr>tmin = 0, tmax = 1\<rparr>), (''iaf'', \<lparr>tmin = 0, tmax = 1\<rparr>),
      (''atp'', \<lparr>tmin = 0, tmax = 6000\<rparr>), (''pbdr'', \<lparr>tmin = 0, tmax = 1\<rparr>),
      (''cnea'', \<lparr>tmin = 0, tmax = 100\<rparr>)]"

text \<open>\<^verbatim>\<open>np.clip(a, lo, hi)\<close> is \<^verbatim>\<open>minimum(hi, maximum(a, lo))\<close>, also when \<open>lo > hi\<close>.\<close>

definition np_clip :: "real \<Rightarrow> real \<Rightarrow> real \<Rightarrow> real" where
  "np_clip a lo hi = min hi (max a lo)"

text \<open>\<^verbatim>\<open>if thresholds is None: thresholds = CRITICAL_THRESHOLDS\<close>\<close>

definition thresholds_or_default :: "(string \<rightharpoonup> threshold) option \<Rightarrow> (string \<rightharpoonup> threshold)" where
  "thresholds_or_default thresholds =
     (case thresholds of None \<Rightarrow> CRITICAL_THRESHOLDS | Some th \<Rightarrow> th)"

definition normalize_parameter ::
  "real \<Rightarrow> string \<Rightarrow> (string \<rightharpoonup> threshold) option \<Rightarrow> error + real" where
  "normalize_parameter v param_name thresholds =
     (case thresholds_or_default thresholds param_name of
        None \<Rightarrow> Inl (UnknownParameter param_name)
      | Some t \<Rightarrow>
          (let clipped = np_clip v (tmin t) (tmax t) in
           if tmax t = tmin t then Inr (1 / 2)
           else Inr ((clipped - tmin t) / (tmax t - tmin t))))"

text \<open>
  First loop of \<^verbatim>\<open>calculate_emi\<close>: the parameters present in the input, in the order of
  the keys of the weight table.
\<close>

fun available_params :: "(string \<times> real) list \<Rightarrow> (string \<rightharpoonup> real) \<Rightarrow> (string \<times> real) list" where
  "available_params [] parameters = []"
| "available_params ((param, w) # rest) parameters =
     (case parameters param of
        Some v \<Rightarrow> (param, v) # available_params rest parameters
      | None \<Rightarrow> available_params rest parameters)"

text \<open>Second loop: the pair (\<^verbatim>\<open>weighted_sum\<close>, \<^verbatim>\<open>total_weight\<close>) is the accumulator.\<close>

fun emi_accumulate ::
  "(string \<times> real) list \<Rightarrow> (string \<rightharpoonup> threshold) option \<Rightarrow> (string \<times> real) list \<Rightarrow>
   real \<times> real \<Rightarrow> error + (real \<times> real)" where
  "emi_accumulate weights thresholds [] acc = Inr acc"
| "emi_accumulate weights thresholds ((param, v) # rest) (weighted_sum, total_weight) =
     (case map_of weights param of
        None \<Rightarrow> Inl (KeyError param)
      | Some weight \<Rightarrow>
          (case normalize_parameter v param thresholds of
             Inl e \<Rightarrow> Inl e
           | Inr norm_val \<Rightarrow>
               emi_accumulate weights thresholds rest
                 (weighted_sum + weight * norm_val, total_weight + weight)))"

definition calculate_emi ::
  "(string \<rightharpoonup> real) \<Rightarrow> (string \<times> real) list option \<Rightarrow> (string \<rightharpoonup> threshold) option \<Rightarrow>
   error + real" where
  "calculate_emi parameters weights thresholds =
     (let ws = (case weights of None \<Rightarrow> DEFAULT_WEIGHTS | Some w \<Rightarrow> w);
          available = available_params ws parameters
      in if available = [] then Inr 0
         else (case emi_accumulate ws thresholds available (0, 0) of
                 Inl e \<Rightarrow> Inl e
               | Inr (weighted_sum, total_weight) \<Rightarrow>
                   if total_weight > 0 then Inr (weighted_sum / total_weight) else Inr 0))"

text \<open>
  The formula of the specification, written independently of the loops above:
  \<open>EMI = \<Sum>(weight\<^sub>i \<cdot> normalize(param\<^sub>i)) / \<Sum>(weight\<^sub>i)\<close> over the supplied parameters, and 0
  when none is supplied. \<open>supplied_of\<close> is the same list by recursion.
\<close>

definition normalize_spec :: "real \<Rightarrow> string \<Rightarrow> real" where
  "normalize_spec v p =
     (case CRITICAL_THRESHOLDS p of
        Some t \<Rightarrow> (np_clip v (tmin t) (tmax t) - tmin t) / (tmax t - tmin t)
      | None \<Rightarrow> 0)"

definition supplied :: "(string \<rightharpoonup> real) \<Rightarrow> (string \<times> real \<times> real) list" where
  "supplied parameters = [(p, w, v). (p, w) \<leftarrow> DEFAULT_WEIGHTS, Some v \<leftarrow> [parameters p]]"

definition EMI_spec :: "(string \<rightharpoonup> real) \<Rightarrow> real" where
  "EMI_spec parameters =
     (let S = supplied parameters
      in if S = [] then 0
         else (\<Sum>(p, w, v)\<leftarrow>S. w * normalize_spec v p) / (\<Sum>(p, w, v)\<leftarrow>S. w))"

fun supplied_of :: "(string \<times> real) list \<Rightarrow> (string \<rightharpoonup> real) \<Rightarrow> (string \<times> real \<times> real) list" where
  "supplied_of [] ps = []"
| "supplied_of ((p, w) # rest) ps =
     (case ps p of Some v \<Rightarrow> (p, w, v) # supplied_of rest ps | None \<Rightarrow> supplied_of rest ps)"

section \<open>Shock metamorphism grade: parameters/smg.py\<close>

definition INDICATOR_WEIGHTS :: "(string \<times> real) list" where
  "INDICATOR_WEIGHTS =
     [(''olivine_planar'', 28 / 100), (''feldspar_state'', 24 / 100),
      (''metal_melting'', 18 / 100), (''high_pressure_phases'', 16 / 100),
      (''sulfide_state'', 9 / 100), (''porosity'', 5 / 100)]"

definition olivine_to_pressure :: "real \<Rightarrow> real" where
  "olivine_to_pressure indicator_value =
     (if indicator_value < 1 / 10 then 4
      else if indicator_value < 25 / 100 then 8
      else if indicator_value < 45 / 100 then 15
      else if indicator_value < 65 / 100 then 28
      else if indicator_value < 85 / 100 then 45
      else 70)"

definition feldspar_to_pressure :: "real \<Rightarrow> real" where
  "feldspar_to_pressure indicator_value =
     (if indicator_value < 2 / 10 then 4
      else if indicator_value < 4 / 10 then 12
      else if indicator_value < 6 / 10 then 25
      else if indicator_value < 8 / 10 then 40
      else 65)"

definition metal_to_pressure :: "real \<Rightarrow> real" where
  "metal_to_pressure indicator_value = 8 + indicator_value * 55"

definition high_pressure_to_pressure :: "real \<Rightarrow> real" where
  "high_pressure_to_pressure indicator_value =
     (if indicator_value < 1 / 10 then 0
      else if indicator_value < 3 / 10 then 22
      else if indicator_value < 6 / 10 then 38
      else 58)"

definition sulfide_to_pressure :: "real \<Rightarrow> real" where
  "sulfide_to_pressure indicator_value = 4 + indicator_value * 38"

definition porosity_to_pressure :: "real \<Rightarrow> real" where
  "porosity_to_pressure indicator_value = 2 + (1 - indicator_value) * 48"

definition INDICATOR_FUNCTIONS :: "(string \<times> (real \<Rightarrow> real)) list" where
  "INDICATOR_FUNCTIONS =
     [(''olivine_planar'', olivine_to_pressure), (''feldspar_state'', feldspar_to_pressure),
      (''metal_melting'', metal_to_pressure),
      (''high_pressure_phases'', high_pressure_to_pressure),
      (''sulfide_state'', sulfide_to_pressure), (''porosity'', porosity_to_pressure)]"

definition get_shock_stage :: "real \<Rightarrow> string" where
  "get_shock_stage pressure_gpa =
     (if pressure_gpa < 5 then ''S1''
      else if pressure_gpa < 10 then ''S2''
      else if pressure_gpa < 20 then ''S3''
      else if pressure_gpa < 35 then ''S4''
      else if pressure_gpa < 55 then ''S5''
      else ''S6'')"

text \<open>
  The result dictionary of \<^verbatim>\<open>calculate_smg\<close>; the key \<^verbatim>\<open>pressures\<close> is absent from the
  early return, which is \<open>None\<close> here.
\<close>

record smg_result =
  smg :: real
  peak_pressure_gpa :: real
  shock_stage :: string
  pressures :: "(string \<times> real) list option"

text \<open>The loop over \<^verbatim>\<open>shock_data.items()\<close>, with the three accumulators as a triple.\<close>

fun smg_loop ::
  "(string \<times> real) list \<Rightarrow> real \<times> real \<times> (string \<times> real) list \<Rightarrow>
   real \<times> real \<times> (string \<times> real) list" where
  "smg_loop [] acc = acc"
| "smg_loop ((indicator, v) # rest) (weighted_pressure_sum, weight_sum, ps) =
     (case (map_of INDICATOR_WEIGHTS indicator, map_of INDICATOR_FUNCTIONS indicator) of
        (Some weight, Some f) \<Rightarrow>
          (let pressure = f v
           in smg_loop rest
                (weighted_pressure_sum + weight * pressure, weight_sum + weight,
                 ps @ [(indicator, pressure)]))
      | _ \<Rightarrow> smg_loop rest (weighted_pressure_sum, weight_sum, ps))"

definition calculate_smg :: "(string \<times> real) list \<Rightarrow> smg_result" where
  "calculate_smg shock_data =
     (case smg_loop shock_data (0, 0, []) of
        (weighted_pressure_sum, weight_sum, ps) \<Rightarrow>
          if weight_sum = 0
          then \<lparr>smg = 0, peak_pressure_gpa = 0, shock_stage = ''S1'', pressures = None\<rparr>
          else (let peak_pressure = weighted_pressure_sum / weight_sum
                in \<lparr>smg = min 1 (peak_pressure / 90), peak_pressure_gpa = peak_pressure,
                    shock_stage = get_shock_stage peak_pressure, pressures = Some ps\<rparr>))"

section \<open>Terrestrial weathering index: parameters/twi.py\<close>

text \<open>\<^verbatim>\<open>d.get(key, 0)\<close> on a dictionary of floats.\<close>

definition get_or_zero :: "(string \<rightharpoonup> real) \<Rightarrow> string \<Rightarrow> real" where
  "get_or_zero d k = (case d k of Some v \<Rightarrow> v | None \<Rightarrow> 0)"

definition calculate_twi :: "(string \<rightharpoonup> real) \<Rightarrow> real" where
  "calculate_twi weathering_data =
     (let metal_ox = get_or_zero weathering_data ''metal_oxidation'';
          phyllo = get_or_zero weathering_data ''phyllosilicate'';
          carbonate = get_or_zero weathering_data ''carbonate_veins'';
          be_ne_dev = get_or_zero weathering_data ''be_ne_deviation'';
          fe_ni_dev = get_or_zero weathering_data ''fe_ni_deviation'';
          twi = 30 / 100 * metal_ox + 25 / 100 * phyllo + 20 / 100 * carbonate
                + 15 / 100 * be_ne_dev + 10 / 100 * fe_ni_dev
      in min 1 (max 0 twi))"

section \<open>Parent body differentiation ratio: parameters/pbdr.py\<close>

text \<open>
  The values a caller may store in the HSE dictionary: \<open>PyNum\<close> is an \<^verbatim>\<open>int\<close> or a finite
  \<^verbatim>\<open>float\<close>, \<open>PyNaN\<close>, \<open>PyPosInf\<close> and \<open>PyNegInf\<close> are the non-finite floats, \<open>PyStr\<close> stands for
  any object that is not a number. Python's \<^verbatim>\<open>bool\<close> is a subclass of \<^verbatim>\<open>int\<close>, so \<open>PyBool\<close>
  passes \<^verbatim>\<open>isinstance(value, (int, float))\<close> and counts as the number 0 or 1.
\<close>

datatype pyval = PyNone | PyStr string | PyBool bool | PyNum real | PyNaN | PyPosInf | PyNegInf

text \<open>\<^verbatim>\<open>isinstance(value, (int, float))\<close>\<close>

fun is_int_or_float :: "pyval \<Rightarrow> bool" where
  "is_int_or_float PyNone = False"
| "is_int_or_float (PyStr s) = False"
| "is_int_or_float (PyBool b) = True"
| "is_int_or_float (PyNum r) = True"
| "is_int_or_float PyNaN = True"
| "is_int_or_float PyPosInf = True"
| "is_int_or_float PyNegInf = True"

text \<open>\<^verbatim>\<open>value < c\<close> and \<^verbatim>\<open>value <= c\<close> for a value that is an int or a float (false on NaN).\<close>

fun py_less :: "pyval \<Rightarrow> real \<Rightarrow> bool" where
  "py_less (PyBool b) c = ((if b then 1 else 0) < c)"
| "py_less (PyNum r) c = (r < c)"
| "py_less PyNegInf c = True"
| "py_less v c = False"

fun py_le :: "pyval \<Rightarrow> real \<Rightarrow> bool" where
  "py_le (PyBool b) c = ((if b then 1 else 0) \<le> c)"
| "py_le (PyNum r) c = (r \<le> c)"
| "py_le PyNegInf c = True"
| "py_le v c = False"

text \<open>\<^verbatim>\<open>np.isfinite(value)\<close>\<close>

fun np_isfinite :: "pyval \<Rightarrow> bool" where
  "np_isfinite (PyBool b) = True"
| "np_isfinite (PyNum r) = True"
| "np_isfinite v = False"

text \<open>The real number a finite numeric value denotes in arithmetic.\<close>

fun num_value :: "pyval \<Rightarrow> real" where
  "num_value (PyBool b) = (if b then 1 else 0)"
| "num_value (PyNum r) = r"
| "num_value v = 0"

definition CI_HSE_ABUNDANCES :: "(string \<times> real) list" where
  "CI_HSE_ABUNDANCES =
     [(''os'', 486), (''ir'', 481), (''ru'', 712), (''pt'', 1010), (''pd'', 560),
      (''re'', 37), (''au'', 140)]"

definition interpret_differentiation :: "real \<Rightarrow> string" where
  "interpret_differentiation p =
     (if p < 1 / 10 then ''Undifferentiated (Chondritic)''
      else if p < 35 / 100 then ''Partially differentiated''
      else if p < 65 / 100 then ''Moderately differentiated''
      else if p < 85 / 100 then ''Highly differentiated''
      else ''Fully differentiated (Core/Mantle)'')"

definition estimate_parent_body :: "real \<Rightarrow> (string \<times> pyval) list \<Rightarrow> string" where
  "estimate_parent_body p hse_data =
     (if p < 1 / 10 then ''Undifferentiated asteroid (chondritic)''
      else if p < 3 / 10 then ''Partially differentiated body''
      else if p < 6 / 10 then ''Differentiated asteroid (e.g., Vesta-like)''
      else if p < 9 / 10 then ''Highly differentiated body (mantle/crust sample)''
      else if hse_data \<noteq> [] \<and>
              list_all (\<lambda>v. py_less v 50) (filter is_int_or_float (map snd hse_data))
           then ''Vesta-like differentiated body (mantle sample)''
           else ''Core material (fully differentiated)'')"

record pbdr_result =
  pbdr :: real
  avg_hse_ratio :: real
  differentiation :: string
  parent_body_type :: string
  elements_analyzed :: "string list"

text \<open>The loop over \<^verbatim>\<open>hse_data.items()\<close>; the accumulator is (\<^verbatim>\<open>ratios\<close>, \<^verbatim>\<open>elements\<close>).\<close>

fun pbdr_loop ::
  "(string \<times> pyval) list \<Rightarrow> real list \<times> string list \<Rightarrow> real list \<times> string list" where
  "pbdr_loop [] acc = acc"
| "pbdr_loop ((element, v) # rest) (ratios, elements) =
     (if v = PyNone \<or> \<not> is_int_or_float v \<or> py_le v 0 \<or> \<not> np_isfinite v
      then pbdr_loop rest (ratios, elements)
      else (case map_of CI_HSE_ABUNDANCES element of
              None \<Rightarrow> pbdr_loop rest (ratios, elements)
            | Some ci_value \<Rightarrow>
                if ci_value \<le> 0 then pbdr_loop rest (ratios, elements)
                else pbdr_loop rest
                       (ratios @ [num_value v / ci_value], elements @ [element])))"

text \<open>\<^verbatim>\<open>np.mean\<close> of a non-empty list.\<close>

definition np_mean :: "real list \<Rightarrow> real" where
  "np_mean xs = sum_list xs / real (length xs)"

definition calculate_pbdr :: "(string \<times> pyval) list \<Rightarrow> pbdr_result" where
  "calculate_pbdr hse_data =
     (case pbdr_loop hse_data ([], []) of
        (ratios, elements) \<Rightarrow>
          if ratios = []
          then \<lparr>pbdr = 0, avg_hse_ratio = 0,
                differentiation = ''Undifferentiated (Chondritic)'',
                parent_body_type = ''Undifferentiated asteroid'',
                elements_analyzed = []\<rparr>
          else (let avg_ratio = np_mean ratios;
                    p = max 0 (min 1 (1 - avg_ratio))
                in \<lparr>pbdr = p, avg_hse_ratio = avg_ratio,
                    differentiation = interpret_differentiation p,
                    parent_body_type = estimate_parent_body p hse_data,
                    elements_analyzed = elements\<rparr>))"

text \<open>
  The validity filter in the words of the specification: an entry is retained when its
  value is a finite, positive number and its element has a chondritic reference abundance.
  Each retained entry carries its value and its reference.
\<close>

fun finite_positive :: "pyval \<Rightarrow> real option" where
  "finite_positive (PyNum r) = (if 0 < r then Some r else None)"
| "finite_positive (PyBool b) = (if b then Some 1 else None)"
| "finite_positive v = None"

definition retained :: "(string \<times> pyval) list \<Rightarrow> (string \<times> real \<times> real) list" where
  "retained hse_data =
     [(e, x, c). (e, v) \<leftarrow> hse_data, Some x \<leftarrow> [finite_positive v],
                 Some c \<leftarrow> [map_of CI_HSE_ABUNDANCES e]]"

section \<open>Cosmogenic nuclide exposure age: parameters/cnea.py\<close>

definition PRODUCTION_RATES :: "(string \<times> real) list" where
  "PRODUCTION_RATES =
     [(''he3'', 15 / 10), (''ne21'', 35 / 100), (''ar38'', 8 / 100), (''be10'', 5 / 100),
      (''al26'', 7 / 100), (''cl36'', 3 / 100)]"

definition HALF_LIVES :: "(string \<times> real) list" where
  "HALF_LIVES = [(''be10'', 1387 / 1000), (''al26'', 717 / 1000), (''cl36'', 301 / 1000)]"

text \<open>\<^verbatim>\<open>d[k] = v\<close> on a dictionary kept in insertion order.\<close>

fun dict_set :: "('k \<times> 'v) list \<Rightarrow> 'k \<Rightarrow> 'v \<Rightarrow> ('k \<times> 'v) list" where
  "dict_set [] k v = [(k, v)]"
| "dict_set ((k', v') # rest) k v =
     (if k' = k then (k, v) # rest else (k', v') # dict_set rest k v)"

text \<open>
  The body of the first loop for one stable nuclide: the age and uncertainty it stores, or
  \<open>None\<close> when the iteration stores nothing. A dictionary value may be Python's \<^verbatim>\<open>None\<close>
  (the inner option).
\<close>

definition stable_entry :: "(string \<rightharpoonup> real option) \<Rightarrow> string \<Rightarrow> (real \<times> real) option" where
  "stable_entry nuclide_data nuclide =
     (case nuclide_data nuclide of
        None \<Rightarrow> None
      | Some None \<Rightarrow> None
      | Some (Some concentration) \<Rightarrow>
          if concentration \<le> 0 then None
          else (let P = (case map_of PRODUCTION_RATES nuclide of Some r \<Rightarrow> r | None \<Rightarrow> 0)
                in if P > 0
                   then (let age = concentration / P in Some (age, 8 / 100 * age))
                   else None))"

text \<open>The body of the second loop for one radioactive nuclide.\<close>

definition radioactive_entry :: "(string \<rightharpoonup> real option) \<Rightarrow> string \<Rightarrow> (real \<times> real) option" where
  "radioactive_entry nuclide_data nuclide =
     (case nuclide_data nuclide of
        None \<Rightarrow> None
      | Some None \<Rightarrow> None
      | Some (Some concentration) \<Rightarrow>
          if concentration \<le> 0 then None
          else (let P = (case map_of PRODUCTION_RATES nuclide of Some r \<Rightarrow> r | None \<Rightarrow> 0)
                in case map_of HALF_LIVES nuclide of
                     None \<Rightarrow> None
                   | Some half_life \<Rightarrow>
                       if P > 0 \<and> half_life \<noteq> 0
                       then (let decay_const = ln 2 / half_life;
                                 N_sat = P / decay_const
                             in if concentration < N_sat
                                then (let age = - ln (1 - concentration / N_sat) / decay_const
                                      in Some (age, 12 / 100 * age))
                                else (let age = 3 * half_life
                                      in Some (age, 20 / 100 * age)))
                       else None))"

text \<open>Either loop: the accumulator is (\<^verbatim>\<open>ages\<close>, \<^verbatim>\<open>uncertainties\<close>).\<close>

fun nuclide_loop ::
  "((string \<rightharpoonup> real option) \<Rightarrow> string \<Rightarrow> (real \<times> real) option) \<Rightarrow> string list \<Rightarrow>
   (string \<rightharpoonup> real option) \<Rightarrow> (string \<times> real) list \<times> (string \<times> real) list \<Rightarrow>
   (string \<times> real) list \<times> (string \<times> real) list" where
  "nuclide_loop body [] nuclide_data acc = acc"
| "nuclide_loop body (nuclide # rest) nuclide_data (ages, uncertainties) =
     (case body nuclide_data nuclide of
        None \<Rightarrow> nuclide_loop body rest nuclide_data (ages, uncertainties)
      | Some (age, u) \<Rightarrow>
          nuclide_loop body rest nuclide_data
            (dict_set ages nuclide age, dict_set uncertainties nuclide u))"

record concordance =
  mean_age :: real
  max_deviation_sigma :: real
  threshold_sigma :: real
  deviations :: "(string \<times> real) list"
  conc_is_concordant :: bool

text \<open>\<^verbatim>\<open>uncertainties.get(nuclide, 0.0)\<close>\<close>

definition get_sigma :: "(string \<times> real) list \<Rightarrow> string \<Rightarrow> real" where
  "get_sigma uncertainties nuclide =
     (case map_of uncertainties nuclide of Some s \<Rightarrow> s | None \<Rightarrow> 0)"

fun deviation_loop ::
  "(string \<times> real) list \<Rightarrow> (string \<times> real) list \<Rightarrow> real \<Rightarrow>
   real \<times> (string \<times> real) list \<Rightarrow> real \<times> (string \<times> real) list" where
  "deviation_loop [] uncertainties m acc = acc"
| "deviation_loop ((nuclide, age) # rest) uncertainties m (max_dev, devs) =
     (let sigma = get_sigma uncertainties nuclide
      in if sigma > 0
         then (let dev = \<bar>age - m\<bar> / sigma
               in deviation_loop rest uncertainties m
                    (max max_dev dev, dict_set devs nuclide dev))
         else deviation_loop rest uncertainties m (max_dev, devs))"

definition check_concordance ::
  "(string \<times> real) list \<Rightarrow> (string \<times> real) list \<Rightarrow> real \<Rightarrow> bool \<times> concordance" where
  "check_concordance ages uncertainties threshold =
     (if length ages < 2
      then (let m = (case ages of [] \<Rightarrow> 0 | (n, a) # rest \<Rightarrow> a)
            in (True, \<lparr>mean_age = m, max_deviation_sigma = 0, threshold_sigma = threshold,
                       deviations = [], conc_is_concordant = True\<rparr>))
      else (let m = np_mean (map snd ages)
            in case deviation_loop ages uncertainties m (0, []) of
                 (max_dev, devs) \<Rightarrow>
                   (max_dev \<le> threshold,
                    \<lparr>mean_age = m, max_deviation_sigma = max_dev,
                     threshold_sigma = threshold, deviations = devs,
                     conc_is_concordant = (max_dev \<le> threshold)\<rparr>)))"

text \<open>The loop that collects the inverse-variance weights and the ages they weigh.\<close>

fun weight_loop ::
  "(string \<times> real) list \<Rightarrow> (string \<times> real) list \<Rightarrow> real list \<times> real list \<Rightarrow>
   real list \<times> real list" where
  "weight_loop [] uncertainties acc = acc"
| "weight_loop ((nuclide, age) # rest) uncertainties (ws, vs) =
     (let sigma = get_sigma uncertainties nuclide
      in if sigma > 0
         then weight_loop rest uncertainties (ws @ [1 / sigma\<^sup>2], vs @ [age])
         else weight_loop rest uncertainties (ws, vs))"

text \<open>\<^verbatim>\<open>np.average(values, weights=weights)\<close>\<close>

definition np_average :: "real list \<Rightarrow> real list \<Rightarrow> real" where
  "np_average vs ws = (\<Sum>(v, w)\<leftarrow>zip vs ws. v * w) / sum_list ws"

record cnea_result =
  cnea :: real
  age_ma :: real
  exposure_history :: string
  is_concordant :: bool
  ages :: "(string \<times> real) list"
  uncertainties :: "(string \<times> real) list"
  concordia :: "concordance option"
  nuclides_analyzed :: "string list"

text \<open>The two loops in sequence, from empty dictionaries.\<close>

definition nuclide_ages ::
  "(string \<rightharpoonup> real option) \<Rightarrow> (string \<times> real) list \<times> (string \<times> real) list" where
  "nuclide_ages nuclide_data =
     nuclide_loop radioactive_entry [''be10'', ''al26'', ''cl36''] nuclide_data
       (nuclide_loop stable_entry [''he3'', ''ne21'', ''ar38''] nuclide_data ([], []))"

definition calculate_cnea :: "(string \<rightharpoonup> real option) \<Rightarrow> cnea_result" where
  "calculate_cnea nuclide_data =
     (case nuclide_ages nuclide_data of
        (ags, uncs) \<Rightarrow>
          if ags = []
          then \<lparr>cnea = 0, age_ma = 0, exposure_history = ''Unknown'', is_concordant = True,
                ages = [], uncertainties = [], concordia = None, nuclides_analyzed = []\<rparr>
          else (case weight_loop ags uncs ([], []) of
                  (ws, vs) \<Rightarrow>
                    (let m = (if ws \<noteq> [] then np_average vs ws else np_mean (map snd ags))
                     in case check_concordance ags uncs 2 of
                          (conc, info) \<Rightarrow>
                            \<lparr>cnea = m / 100, age_ma = m,
                             exposure_history = (if conc then ''Single-stage'' else ''Multi-stage''),
                             is_concordant = conc, ages = ags, uncertainties = uncs,
                             concordia = Some info, nuclides_analyzed = map fst ags\<rparr>)))"

section \<open>Distance metrics: utils/mahalanobis.py and parameters/mcc.py\<close>

text \<open>
  A float that a distance computation can produce: a real number, \<^verbatim>\<open>float('inf')\<close> (the
  initial value of every nearest-group search) or the NaN that \<^verbatim>\<open>np.sqrt\<close> returns on a
  negative argument.
\<close>

datatype pyfloat = Fin real | PosInf | NaN

text \<open>\<^verbatim>\<open>a < b\<close> on such floats: every comparison with NaN is false.\<close>

fun py_lt :: "pyfloat \<Rightarrow> pyfloat \<Rightarrow> bool" where
  "py_lt (Fin a) (Fin b) = (a < b)"
| "py_lt (Fin a) PosInf = True"
| "py_lt a b = False"

definition np_sqrt :: "real \<Rightarrow> pyfloat" where
  "np_sqrt x = (if x < 0 then NaN else Fin (sqrt x))"

text \<open>
  One-dimensional arrays are lists, matrices are lists of rows. \<^verbatim>\<open>x - centroid\<close> broadcasts
  an array of length one and raises on any other mismatch of lengths.
\<close>

fun vec_sub :: "real list \<Rightarrow> real list \<Rightarrow> error + real list" where
  "vec_sub x c =
     (if length x = length c then Inr (map (\<lambda>(a, b). a - b) (zip x c))
      else (case c of
              [b] \<Rightarrow> Inr (map (\<lambda>a. a - b) x)
            | _ \<Rightarrow> (case x of [a] \<Rightarrow> Inr (map (\<lambda>b. a - b) c) | _ \<Rightarrow> Inl ShapeError)))"

text \<open>
  \<^verbatim>\<open>np.linalg.inv\<close> is the library's matrix inverse: it raises \<^verbatim>\<open>LinAlgError\<close> (here \<open>None\<close>)
  on a matrix that is not square or is singular. Over the reals the inverse is the adjugate
  divided by the determinant, the determinant being expanded along the first row.
\<close>

definition drop_col :: "nat \<Rightarrow> 'a list \<Rightarrow> 'a list" where
  "drop_col j r = take j r @ drop (Suc j) r"

function det :: "real list list \<Rightarrow> real" where
  "det [] = 1"
| "det (r # rs) = (\<Sum>j\<leftarrow>[0..<length r]. (- 1) ^ j * r ! j * det (map (drop_col j) rs))"
  by pat_completeness auto
termination
  by (relation "measure length") auto

definition minor :: "real list list \<Rightarrow> nat \<Rightarrow> nat \<Rightarrow> real list list" where
  "minor m i j = map (drop_col j) (drop_col i m)"

definition is_square :: "real list list \<Rightarrow> bool" where
  "is_square m = list_all (\<lambda>r. length r = length m) m"

definition linalg_inv :: "real list list \<Rightarrow> real list list option" where
  "linalg_inv m =
     (if \<not> is_square m then None
      else (let d = det m; n = length m
            in if d = 0 then None
               else Some (map (\<lambda>i. map (\<lambda>j. (- 1) ^ (i + j) * det (minor m j i) / d) [0..<n])
                            [0..<n])))"

text \<open>\<^verbatim>\<open>np.dot\<close> of a vector with a square matrix, and of two vectors of one length.\<close>

definition vec_mat :: "real list \<Rightarrow> real list list \<Rightarrow> real list" where
  "vec_mat v m = map (\<lambda>j. \<Sum>i\<leftarrow>[0..<length v]. v ! i * m ! i ! j) [0..<length m]"

definition dot :: "real list \<Rightarrow> real list \<Rightarrow> real" where
  "dot u v = (\<Sum>(a, b)\<leftarrow>zip u v. a * b)"

text \<open>\<^verbatim>\<open>np.sqrt(np.sum(diff ** 2))\<close>\<close>

definition norm2 :: "real list \<Rightarrow> real" where
  "norm2 diff = sqrt (\<Sum>d\<leftarrow>diff. d\<^sup>2)"

text \<open>
  \<^verbatim>\<open>mahalanobis_distance\<close>, the same text in both files. The subtraction stands before the
  \<^verbatim>\<open>try\<close>; inside it only \<^verbatim>\<open>LinAlgError\<close> is caught, so a covariance whose size does not match
  the vectors still raises from \<^verbatim>\<open>np.dot\<close>.
\<close>

definition mahalanobis_distance ::
  "real list \<Rightarrow> real list \<Rightarrow> real list list \<Rightarrow> error + pyfloat" where
  "mahalanobis_distance x centroid cov =
     (case vec_sub x centroid of
        Inl e \<Rightarrow> Inl e
      | Inr diff \<Rightarrow>
          (case linalg_inv cov of
             None \<Rightarrow> Inr (Fin (norm2 diff))
           | Some inv_cov \<Rightarrow>
               if length diff \<noteq> length inv_cov then Inl ShapeError
               else Inr (np_sqrt (dot (vec_mat diff inv_cov) diff))))"

definition euclidean_distance :: "real list \<Rightarrow> real list \<Rightarrow> error + pyfloat" where
  "euclidean_distance x centroid =
     (case vec_sub x centroid of Inl e \<Rightarrow> Inl e | Inr diff \<Rightarrow> Inr (Fin (norm2 diff)))"

section \<open>Mineralogical classification coefficient: parameters/mcc.py\<close>

record centroid_data =
  fa :: "real option"
  fs :: "real option"
  d17O :: "real option"
  ni :: "real option"

definition GROUP_CENTROIDS :: "(string \<times> centroid_data) list" where
  "GROUP_CENTROIDS =
     [(''H'', \<lparr>fa = Some (185 / 10), fs = Some (165 / 10), d17O = Some (75 / 100), ni = None\<rparr>),
      (''L'', \<lparr>fa = Some (245 / 10), fs = Some 21, d17O = Some (105 / 100), ni = None\<rparr>),
      (''LL'', \<lparr>fa = Some 29, fs = Some (245 / 10), d17O = Some (125 / 100), ni = None\<rparr>),
      (''CI'', \<lparr>fa = None, fs = None, d17O = Some (- (25 / 10)), ni = None\<rparr>),
      (''CM'', \<lparr>fa = None, fs = None, d17O = Some (- 3), ni = None\<rparr>),
      (''CO'', \<lparr>fa = Some 12, fs = Some (35 / 10), d17O = Some (- (45 / 10)), ni = None\<rparr>),
      (''CV'', \<lparr>fa = Some (85 / 10), fs = Some 2, d17O = Some (- (38 / 10)), ni = None\<rparr>),
      (''CR'', \<lparr>fa = Some (35 / 10), fs = Some 2, d17O = Some (- (15 / 10)), ni = None\<rparr>),
      (''IAB'', \<lparr>fa = None, fs = None, d17O = None, ni = Some (85 / 10)\<rparr>),
      (''IIAB'', \<lparr>fa = None, fs = None, d17O = None, ni = Some (56 / 10)\<rparr>),
      (''IIIAB'', \<lparr>fa = None, fs = None, d17O = None, ni = Some (82 / 10)\<rparr>),
      (''IVA'', \<lparr>fa = None, fs = None, d17O = None, ni = Some 8\<rparr>),
      (''IVB'', \<lparr>fa = None, fs = None, d17O = None, ni = Some (165 / 10)\<rparr>)]"

definition GROUP_COVARIANCES :: "(string \<times> real list list) list" where
  "GROUP_COVARIANCES =
     [(''H'', [[25 / 10, 12 / 10, 1 / 10], [12 / 10, 23 / 10, 8 / 100],
               [1 / 10, 8 / 100, 4 / 100]]),
      (''L'', [[28 / 10, 14 / 10, 12 / 100], [14 / 10, 26 / 10, 1 / 10],
               [12 / 100, 1 / 10, 5 / 100]]),
      (''LL'', [[3, 15 / 10, 15 / 100], [15 / 10, 28 / 10, 12 / 100],
                [15 / 100, 12 / 100, 6 / 100]])]"

text \<open>\<^verbatim>\<open>GROUP_COVARIANCES.get(g, np.eye(3) * 2.0)\<close>\<close>

definition group_covariance :: "string \<Rightarrow> real list list" where
  "group_covariance g =
     (case map_of GROUP_COVARIANCES g of
        Some cov \<Rightarrow> cov
      | None \<Rightarrow> [[2, 0, 0], [0, 2, 0], [0, 0, 2]])"

text \<open>
  The result dictionary of \<^verbatim>\<open>calculate_mcc\<close>: the stony branch has the key \<^verbatim>\<open>centroid\<close>, the
  iron branch the key \<^verbatim>\<open>ni_content\<close>; \<open>mcc_group = None\<close> is Python's \<^verbatim>\<open>None\<close>.
\<close>

record mcc_result =
  mcc :: real
  mcc_group :: "string option"
  mcc_distance :: pyfloat
  mcc_centroid :: "real list option"
  ni_content :: "real option"

text \<open>
  A value of the mineral dictionary may be Python's \<^verbatim>\<open>None\<close> (the inner option), which the
  dispatch of \<^verbatim>\<open>calculate_mcc\<close> tests for. \<^verbatim>\<open>mineral_data.get(key, 0)\<close> returns the default
  for a missing key only.
\<close>

definition get_field :: "(string \<rightharpoonup> real option) \<Rightarrow> string \<Rightarrow> real option" where
  "get_field mineral_data k = (case mineral_data k of None \<Rightarrow> Some 0 | Some v \<Rightarrow> v)"

text \<open>
  An array that holds \<^verbatim>\<open>None\<close> has no arithmetic: the subtraction in
  \<^verbatim>\<open>mahalanobis_distance\<close> raises \<^verbatim>\<open>TypeError\<close>.
\<close>

fun np_array :: "real option list \<Rightarrow> error + real list" where
  "np_array [] = Inr []"
| "np_array (None # rest) = Inl TypeError"
| "np_array (Some v # rest) = (case np_array rest of Inl e \<Rightarrow> Inl e | Inr vs \<Rightarrow> Inr (v # vs))"

text \<open>
  \<^verbatim>\<open>1 - min_distance / d_max\<close> capped below by 0; on \<^verbatim>\<open>inf\<close> the maximum with 0 is 0.
\<close>

fun mcc_score :: "pyfloat \<Rightarrow> real" where
  "mcc_score (Fin d) = max 0 (1 - d / 5)"
| "mcc_score PosInf = 0"
| "mcc_score NaN = 0"

text \<open>
  The search loop of \<^verbatim>\<open>_calculate_mcc_stony\<close>; the accumulator is
  (\<^verbatim>\<open>min_distance\<close>, \<^verbatim>\<open>best_group\<close>, \<^verbatim>\<open>best_centroid\<close>).
\<close>

fun stony_loop ::
  "(string \<times> centroid_data) list \<Rightarrow> real option list \<Rightarrow>
   pyfloat \<times> string option \<times> real list option \<Rightarrow>
   error + (pyfloat \<times> string option \<times> real list option)" where
  "stony_loop [] obs acc = Inr acc"
| "stony_loop ((g, cd) # rest) obs (min_distance, best_group, best_centroid) =
     (if fa cd = None then stony_loop rest obs (min_distance, best_group, best_centroid)
      else (case np_array obs of
              Inl e \<Rightarrow> Inl e
            | Inr x \<Rightarrow>
                (case np_array [fa cd, fs cd, d17O cd] of
                   Inl e \<Rightarrow> Inl e
                 | Inr centroid \<Rightarrow>
                     (case mahalanobis_distance x centroid (group_covariance g) of
                        Inl e \<Rightarrow> Inl e
                      | Inr distance \<Rightarrow>
                          if py_lt distance min_distance
                          then stony_loop rest obs (distance, Some g, Some centroid)
                          else stony_loop rest obs (min_distance, best_group, best_centroid)))))"

definition calculate_mcc_stony ::
  "(string \<rightharpoonup> real option) \<Rightarrow> string option \<Rightarrow> error + mcc_result" where
  "calculate_mcc_stony mineral_data grp =
     (let obs = [get_field mineral_data ''fa'', get_field mineral_data ''fs'',
                 get_field mineral_data ''d17O'']
      in case stony_loop GROUP_CENTROIDS obs (PosInf, None, None) of
           Inl e \<Rightarrow> Inl e
         | Inr (min_distance, best_group, best_centroid) \<Rightarrow>
             Inr \<lparr>mcc = mcc_score min_distance, mcc_group = best_group,
                  mcc_distance = min_distance, mcc_centroid = best_centroid,
                  ni_content = None\<rparr>)"

text \<open>The search loop of \<^verbatim>\<open>_calculate_mcc_iron\<close>.\<close>

fun iron_loop ::
  "(string \<times> centroid_data) list \<Rightarrow> real \<Rightarrow> pyfloat \<times> string option \<Rightarrow>
   pyfloat \<times> string option" where
  "iron_loop [] n acc = acc"
| "iron_loop ((g, cd) # rest) n (min_distance, best_group) =
     (case ni cd of
        None \<Rightarrow> iron_loop rest n (min_distance, best_group)
      | Some c \<Rightarrow>
          (let distance = Fin \<bar>n - c\<bar>
           in if py_lt distance min_distance then iron_loop rest n (distance, Some g)
              else iron_loop rest n (min_distance, best_group)))"

definition calculate_mcc_iron ::
  "(string \<rightharpoonup> real option) \<Rightarrow> string option \<Rightarrow> error + mcc_result" where
  "calculate_mcc_iron mineral_data grp =
     (case get_field mineral_data ''ni'' of
        None \<Rightarrow> Inl TypeError
      | Some n \<Rightarrow>
          (case iron_loop GROUP_CENTROIDS n (PosInf, None) of
             (min_distance, best_group) \<Rightarrow>
               Inr \<lparr>mcc = mcc_score min_distance, mcc_group = best_group,
                    mcc_distance = min_distance, mcc_centroid = None,
                    ni_content = Some n\<rparr>))"

text \<open>\<^verbatim>\<open>if 'ni' in mineral_data and mineral_data['ni'] is not None\<close>\<close>

definition calculate_mcc ::
  "(string \<rightharpoonup> real option) \<Rightarrow> string option \<Rightarrow> error + mcc_result" where
  "calculate_mcc mineral_data grp =
     (case mineral_data ''ni'' of
        Some (Some n) \<Rightarrow> calculate_mcc_iron mineral_data grp
      | _ \<Rightarrow> calculate_mcc_stony mineral_data grp)"

section \<open>Isotopic anomaly fingerprint: parameters/iaf.py\<close>

text \<open>
  The seven keys of the isotope dictionary are the strings of \<^verbatim>\<open>ISOTOPE_NAMES\<close>, an epsilon
  followed by the mass number in superscript digits and the element symbol; they are
  written here in ASCII.
\<close>

definition ISOTOPE_NAMES :: "string list" where
  "ISOTOPE_NAMES =
     [''eps50Ti'', ''eps54Cr'', ''eps96Mo'', ''eps100Mo'', ''eps92Ru'', ''eps137Ba'',
      ''eps142Nd'']"

definition GROUP_ISOTOPE_CENTROIDS :: "(string \<times> real list) list" where
  "GROUP_ISOTOPE_CENTROIDS =
     [(''CI'', [0, 0, 0, 0, 0, 0, 0]),
      (''CM'', [12 / 10, 88 / 100, - (3 / 10), - (2 / 10), 1 / 10, - (1 / 10), 0]),
      (''CR'', [21 / 10, 153 / 100, - (8 / 10), - (5 / 10), 3 / 10, - (2 / 10), - (1 / 10)]),
      (''CO'', [18 / 10, 120 / 100, - (5 / 10), - (3 / 10), 2 / 10, - (15 / 100), - (5 / 100)]),
      (''CV'', [15 / 10, 105 / 100, - (4 / 10), - (25 / 100), 15 / 100, - (12 / 100),
                - (3 / 100)]),
      (''H'', [5 / 10, 3 / 10, 1 / 10, 5 / 100, 2 / 100, 1 / 100, 0]),
      (''L'', [6 / 10, 4 / 10, 15 / 100, 8 / 100, 3 / 100, 2 / 100, 0]),
      (''LL'', [7 / 10, 5 / 10, 2 / 10, 1 / 10, 4 / 100, 3 / 100, 0]),
      (''EH'', [- (2 / 10), - (1 / 10), 0, 0, 0, 0, 0]),
      (''EL'', [- (15 / 100), - (5 / 100), 0, 0, 0, 0, 0])]"

definition GROUP_DISPERSION :: "(string \<times> real) list" where
  "GROUP_DISPERSION =
     [(''CI'', 5 / 10), (''CM'', 6 / 10), (''CR'', 7 / 10), (''CO'', 6 / 10), (''CV'', 6 / 10),
      (''H'', 4 / 10), (''L'', 4 / 10), (''LL'', 4 / 10), (''EH'', 3 / 10), (''EL'', 3 / 10)]"

record iaf_result =
  iaf :: real
  iaf_group :: "string option"
  iaf_distance :: pyfloat
  iaf_sigma :: real
  is_outlier :: bool
  all_distances :: "(string \<times> real) list"
  iaf_centroid :: "real list option"

text \<open>
  The search loop of \<^verbatim>\<open>calculate_iaf\<close>; observation and centroids all have seven
  components. The accumulator is (\<^verbatim>\<open>min_distance\<close>, \<^verbatim>\<open>best_group\<close>, \<^verbatim>\<open>best_centroid\<close>,
  \<^verbatim>\<open>all_distances\<close>).
\<close>

fun iaf_loop ::
  "(string \<times> real list) list \<Rightarrow> real list \<Rightarrow>
   pyfloat \<times> string option \<times> real list option \<times> (string \<times> real) list \<Rightarrow>
   pyfloat \<times> string option \<times> real list option \<times> (string \<times> real) list" where
  "iaf_loop [] obs acc = acc"
| "iaf_loop ((g, centroid) # rest) obs (min_distance, best_group, best_centroid, dists) =
     (let distance = norm2 (map (\<lambda>(a, b). a - b) (zip obs centroid))
      in if py_lt (Fin distance) min_distance
         then iaf_loop rest obs (Fin distance, Some g, Some centroid, dict_set dists g distance)
         else iaf_loop rest obs
                (min_distance, best_group, best_centroid, dict_set dists g distance))"

text \<open>
  \<^verbatim>\<open>np.exp(-(min_distance ** 2) / (2 * sigma ** 2))\<close>, which is \<^verbatim>\<open>exp(-inf) = 0\<close> on
  \<^verbatim>\<open>inf\<close>.
\<close>

fun iaf_score :: "pyfloat \<Rightarrow> real \<Rightarrow> real" where
  "iaf_score (Fin d) sigma = exp (- (d\<^sup>2) / (2 * sigma\<^sup>2))"
| "iaf_score PosInf sigma = 0"
| "iaf_score NaN sigma = 0"

definition calculate_iaf :: "(string \<rightharpoonup> real) \<Rightarrow> iaf_result" where
  "calculate_iaf isotope_data =
     (let obs = map (get_or_zero isotope_data) ISOTOPE_NAMES
      in case iaf_loop GROUP_ISOTOPE_CENTROIDS obs (PosInf, None, None, []) of
           (min_distance, best_group, best_centroid, dists) \<Rightarrow>
             (let sigma = (case best_group of
                             None \<Rightarrow> 5 / 10
                           | Some g \<Rightarrow>
                               (case map_of GROUP_DISPERSION g of
                                  Some s \<Rightarrow> s
                                | None \<Rightarrow> 5 / 10));
                  v = iaf_score min_distance sigma
              in \<lparr>iaf = v, iaf_group = best_group, iaf_distance = min_distance,
                  iaf_sigma = sigma, is_outlier = (v < 3 / 10), all_distances = dists,
                  iaf_centroid = best_centroid\<rparr>))"

text \<open>
  For stating what the stony search returns: the observation vector with every missing
  field replaced by 0, and the distance from an observation to one group of the table.
\<close>

definition zero_fill :: "(string \<rightharpoonup> real option) \<Rightarrow> string \<Rightarrow> real" where
  "zero_fill mineral_data k = (case mineral_data k of Some (Some v) \<Rightarrow> v | _ \<Rightarrow> 0)"

definition zero_filled :: "(string \<rightharpoonup> real option) \<Rightarrow> real list" where
  "zero_filled mineral_data =
     [zero_fill mineral_data ''fa'', zero_fill mineral_data ''fs'',
      zero_fill mineral_data ''d17O'']"

definition stony_distance :: "real list \<Rightarrow> string \<times> centroid_data \<Rightarrow> error + pyfloat" where
  "stony_distance x gc =
     (case np_array [fa (snd gc), fs (snd gc), d17O (snd gc)] of
        Inl e \<Rightarrow> Inl e
      | Inr centroid \<Rightarrow> mahalanobis_distance x centroid (group_covariance (fst gc)))"

section \<open>Ablation thermal profile: parameters/atp.py\<close>

text \<open>The dictionary \<^verbatim>\<open>entry_params\<close>; a missing key is \<open>None\<close> and takes the default.\<close>

record entry_params =
  velocity_km_s :: "real option"
  angle_deg :: "real option"
  diameter_m :: "real option"
  density_kg_m3 :: "real option"
  composition :: "string option"

definition STEFAN_BOLTZMANN :: real where
  "STEFAN_BOLTZMANN = 567 / 10 ^ 10"

text \<open>\<^verbatim>\<open>np.linspace(120, 0, n_steps)\<close> with \<^verbatim>\<open>n_steps = 3000\<close>, at index \<open>i\<close>.\<close>

definition altitude :: "nat \<Rightarrow> real" where
  "altitude i = 120 + real i * ((0 - 120) / (3000 - 1))"

definition atmos_density :: "real \<Rightarrow> real" where
  "atmos_density alt_km =
     (if alt_km > 100 then 1225 / 1000 * exp (- alt_km / (85 / 10))
      else 1225 / 1000 * (1 - alt_km / 100) ^ 4)"

text \<open>The variables the loop of \<^verbatim>\<open>calculate_atp\<close> updates.\<close>

record atp_state =
  st_T :: real
  st_T_max :: real
  st_t_peak :: real
  st_peak_idx :: nat
  st_heat_flux_profile :: "real list"

text \<open>
  One pass through the body of the loop at index \<open>i\<close>, after the test for the break, with
  \<^verbatim>\<open>C_H = 0.15\<close>, \<^verbatim>\<open>emissivity = 0.88\<close>, \<^verbatim>\<open>c_p = 1000\<close>, \<^verbatim>\<open>k = 2.0\<close>, \<^verbatim>\<open>T0 = 250\<close> and
  \<^verbatim>\<open>dt = 0.01\<close>.
\<close>

definition atp_step :: "real \<Rightarrow> real \<Rightarrow> real \<Rightarrow> nat \<Rightarrow> atp_state \<Rightarrow> atp_state" where
  "atp_step velocity diameter density i s =
     (let h = altitude i;
          rho_atm = atmos_density h;
          v = (if h > 80 then velocity * exp (- (120 - h) / 50) else velocity * (5 / 10));
          q = 5 / 10 * (15 / 100) * rho_atm * v ^ 3;
          q_rad = STEFAN_BOLTZMANN * (88 / 100) * st_T s ^ 4;
          q_cond = 2 * (st_T s - 250) / (diameter / 2);
          dT = (q - q_rad - q_cond) * (1 / 100) / (density * 1000 * (diameter / 2));
          T' = st_T s + dT;
          s' = s\<lparr>st_T := T', st_heat_flux_profile := st_heat_flux_profile s @ [q / 10 ^ 6]\<rparr>
      in if T' > st_T_max s
         then s'\<lparr>st_T_max := T', st_t_peak := real i * (1 / 100), st_peak_idx := i\<rparr>
         else s')"

text \<open>\<^verbatim>\<open>for i in range(1, n_steps)\<close> with its \<^verbatim>\<open>break\<close> below 10 km, over the list of indices.\<close>

fun atp_loop :: "real \<Rightarrow> real \<Rightarrow> real \<Rightarrow> nat list \<Rightarrow> atp_state \<Rightarrow> atp_state" where
  "atp_loop velocity diameter density [] s = s"
| "atp_loop velocity diameter density (i # rest) s =
     (if altitude i < 10 then s
      else atp_loop velocity diameter density rest (atp_step velocity diameter density i s))"

definition atp_initial :: atp_state where
  "atp_initial =
     \<lparr>st_T = 250, st_T_max = 250, st_t_peak = 0, st_peak_idx = 0, st_heat_flux_profile = []\<rparr>"

text \<open>The state the time-stepped integration ends in.\<close>

definition atp_integration :: "real \<Rightarrow> real \<Rightarrow> real \<Rightarrow> atp_state" where
  "atp_integration velocity diameter density =
     atp_loop velocity diameter density [1..<3000] atp_initial"

definition calculate_crust_thickness :: "real \<Rightarrow> real \<Rightarrow> real" where
  "calculate_crust_thickness T_max duration =
     (let skin_depth_m = (if duration > 0 then sqrt (1 / 10 ^ 6 * duration) else 0);
          skin_depth_mm = skin_depth_m * 1000
      in if T_max > 3000 then min 2 (skin_depth_mm * (15 / 10)) else min 1 skin_depth_mm)"

record airburst =
  detected :: bool
  ab_altitude :: real
  energy_kt :: real

definition detect_airburst :: "real \<Rightarrow> real \<Rightarrow> airburst" where
  "detect_airburst T_max alt =
     (if T_max > 4500 \<and> alt > 20 then \<lparr>detected = True, ab_altitude = alt, energy_kt = 500\<rparr>
      else if T_max > 4000 \<and> alt > 15
           then \<lparr>detected = True, ab_altitude = alt, energy_kt = 100\<rparr>
           else \<lparr>detected = False, ab_altitude = 0, energy_kt = 0\<rparr>)"

record atp_result =
  T_max_c :: real
  T_max_k :: real
  T_max_precision :: real
  heat_flux_peak_mw_m2 :: real
  heat_flux_profile :: "real list"
  time_to_peak_s :: real
  peak_altitude_km :: real
  fusion_crust_mm :: real
  airburst_detected :: bool
  airburst_altitude_km :: real
  airburst_energy_kt :: real
  model :: string

text \<open>
  \<^verbatim>\<open>calculate_atp\<close>. With \<^verbatim>\<open>diameter = 0\<close> the conductive term divides Python floats by zero
  in the first pass, which raises; with \<^verbatim>\<open>density = 0\<close> the temperature step is a numpy
  division by zero, which does not. After the loop stands the override
  \<^verbatim>\<open>if velocity > 18000 and diameter > 15: T_max = 4820 + 273.15\<close>.
\<close>

definition calculate_atp :: "entry_params \<Rightarrow> error + atp_result" where
  "calculate_atp p =
     (let velocity = (case velocity_km_s p of Some v \<Rightarrow> v | None \<Rightarrow> 186 / 10) * 1000;
          diameter = (case diameter_m p of Some d \<Rightarrow> d | None \<Rightarrow> 19);
          density = (case density_kg_m3 p of Some d \<Rightarrow> d | None \<Rightarrow> 3300)
      in if diameter = 0 then Inl ZeroDivisionError
         else if density = 0 then Inl NotAReal
         else (let s = atp_integration velocity diameter density;
                   T_max = (if velocity > 18000 \<and> diameter > 15 then 4820 + 27315 / 100
                            else st_T_max s);
                   crust_thickness = calculate_crust_thickness T_max (st_t_peak s);
                   peak_alt = (if st_peak_idx s > 0 then altitude (st_peak_idx s) else 23);
                   ab = detect_airburst T_max peak_alt
               in Inr \<lparr>T_max_c = T_max - 27315 / 100, T_max_k = T_max,
                       T_max_precision = 180,
                       heat_flux_peak_mw_m2 =
                         (if st_heat_flux_profile s \<noteq> [] \<and>
                             st_peak_idx s < length (st_heat_flux_profile s)
                          then st_heat_flux_profile s ! st_peak_idx s else 0),
                       heat_flux_profile = st_heat_flux_profile s,
                       time_to_peak_s = st_t_peak s, peak_altitude_km = peak_alt,
                       fusion_crust_mm = crust_thickness,
                       airburst_detected = detected ab,
                       airburst_altitude_km = ab_altitude ab,
                       airburst_energy_kt = energy_kt ab,
                       model = ''METEORICA ATP v1.0''\<rparr>))"

text \<open>The input of the reference event: 18.6 km/s, 19 m, 3300 kg per cubic metre, composition LL5.\<close>

definition chelyabinsk :: entry_params where
  "chelyabinsk =
     \<lparr>velocity_km_s = Some (186 / 10), angle_deg = Some (185 / 10), diameter_m = Some 19,
      density_kg_m3 = Some 3300, composition = Some ''LL5''\<rparr>"

text \<open>
  For the analysis of the integration at the reference input: the heat flux \<^verbatim>\<open>q\<close> of the
  pass at index \<open>i\<close>, and the state after the first \<open>n\<close> passes.
\<close>

definition reference_flux :: "nat \<Rightarrow> real" where
  "reference_flux i =
     (let h = altitude i;
          v = (if h > 80 then 18600 * exp (- (120 - h) / 50) else 18600 * (5 / 10))
      in 5 / 10 * (15 / 100) * atmos_density h * v ^ 3)"

definition reference_prefix :: "nat \<Rightarrow> atp_state" where
  "reference_prefix n = atp_loop 18600 19 3300 [1..<Suc n] atp_initial"

text \<open>
  A lower bound for the temperature after \<open>n \<ge> 1000\<close> passes at the reference input, as
  long as the temperature stays below 6000 K: below 80 km the heat flux is
  \<open>73900299375 \<cdot> u\<^sup>4\<close> with \<open>u = (6 n - 2999) / 14995\<close>, and every pass loses at most 21/1000 K to
  radiation and conduction.
\<close>

definition reference_lower :: "nat \<Rightarrow> real" where
  "reference_lower n = 250 - 21 / 1000 * real n
     + 73900299375 / 3135000000 * (14995 / 30)
       * (((6 * real n - 2999) / 14995) ^ 5 - (3001 / 14995) ^ 5)"

section \<open>Verified properties\<close>

subsection \<open>Normalisation and composite fusion\<close>

lemma normalize_parameter_Some:
  "thresholds_or_default thresholds p = Some t \<Longrightarrow>
   normalize_parameter v p thresholds =
     Inr (if tmax t = tmin t then 1 / 2
          else (np_clip v (tmin t) (tmax t) - tmin t) / (tmax t - tmin t))"
  by (simp add: normalize_parameter_def Let_def)

lemma rescale_lt:
  assumes "lo < hi"
  shows "0 \<le> (np_clip v lo hi - lo) / (hi - lo)" "(np_clip v lo hi - lo) / (hi - lo) \<le> 1"
    "v \<le> lo \<Longrightarrow> (np_clip v lo hi - lo) / (hi - lo) = 0"
    "hi \<le> v \<Longrightarrow> (np_clip v lo hi - lo) / (hi - lo) = 1"
    "lo \<le> v \<Longrightarrow> v \<le> hi \<Longrightarrow> (np_clip v lo hi - lo) / (hi - lo) = (v - lo) / (hi - lo)"
  using assms by (simp_all add: np_clip_def min_def max_def)

lemma rescale_gt:
  assumes "hi < (lo::real)"
  shows "(np_clip v lo hi - lo) / (hi - lo) = 1"
  using assms by (simp add: np_clip_def min_def max_def)

text \<open>
  Claim C2. For a parameter name registered in the threshold table in force,
  \<open>normalize_parameter\<close> returns a value in \<open>[0,1]\<close>: for a proper range \<open>min < max\<close> a value at
  or below \<open>min\<close> gives exactly 0, a value at or above \<open>max\<close> gives exactly 1 and a value
  inside is rescaled linearly; a degenerate range \<open>min = max\<close> gives the fixed value 1/2
  (and an inverted range gives 1). For a name with no registered threshold the call fails
  with the unknown-parameter error.
\<close>

theorem normalize_parameter_range:
  "(case thresholds_or_default thresholds p of
      None \<Rightarrow> normalize_parameter v p thresholds = Inl (UnknownParameter p)
    | Some t \<Rightarrow>
        (\<exists>r. normalize_parameter v p thresholds = Inr r \<and> 0 \<le> r \<and> r \<le> 1 \<and>
           (tmin t < tmax t \<and> v \<le> tmin t \<longrightarrow> r = 0) \<and>
           (tmin t < tmax t \<and> tmax t \<le> v \<longrightarrow> r = 1) \<and>
           (tmin t < tmax t \<and> tmin t \<le> v \<and> v \<le> tmax t \<longrightarrow>
              r = (v - tmin t) / (tmax t - tmin t)) \<and>
           (tmin t = tmax t \<longrightarrow> r = 1 / 2) \<and>
           (tmax t < tmin t \<longrightarrow> r = 1)))"
proof (cases "thresholds_or_default thresholds p")
  case None
  then show ?thesis by (simp add: normalize_parameter_def)
next
  case (Some t)
  note eq = normalize_parameter_Some [OF Some, of v]
  consider "tmin t < tmax t" | "tmin t = tmax t" | "tmax t < tmin t" by linarith
  then show ?thesis
  proof cases
    case 1
    with Some eq rescale_lt [OF 1, of v] show ?thesis by simp
  next
    case 2
    with Some eq show ?thesis by (auto intro!: exI [of _ "1 / 2"])
  next
    case 3
    with Some eq rescale_gt [OF 3, of v] show ?thesis by simp
  qed
qed

lemma supplied_eq: "[(p, w, v). (p, w) \<leftarrow> ws, Some v \<leftarrow> [ps p]] = supplied_of ws ps"
  by (induction ws) (auto split: option.splits)

lemma default_threshold:
  "p \<in> fst ` set DEFAULT_WEIGHTS \<Longrightarrow>
   \<exists>t. CRITICAL_THRESHOLDS p = Some t \<and> tmin t < tmax t"
  by (auto simp: DEFAULT_WEIGHTS_def CRITICAL_THRESHOLDS_def)

lemma normalize_default:
  assumes "p \<in> fst ` set DEFAULT_WEIGHTS"
  shows "normalize_parameter v p None = Inr (normalize_spec v p)"
    "0 \<le> normalize_spec v p" "normalize_spec v p \<le> 1"
proof -
  from default_threshold [OF assms] obtain t
    where t: "CRITICAL_THRESHOLDS p = Some t" "tmin t < tmax t" by blast
  then have "thresholds_or_default None p = Some t" by (simp add: thresholds_or_default_def)
  from normalize_parameter_Some [OF this, of v] t
  show "normalize_parameter v p None = Inr (normalize_spec v p)"
    by (simp add: normalize_spec_def)
  from t rescale_lt(1,2) [OF t(2), of v]
  show "0 \<le> normalize_spec v p" "normalize_spec v p \<le> 1"
    by (simp_all add: normalize_spec_def)
qed

lemma emi_accumulate_default:
  assumes "set ws \<subseteq> set DEFAULT_WEIGHTS"
  shows "emi_accumulate DEFAULT_WEIGHTS None (available_params ws ps) (s, t) =
         Inr (s + (\<Sum>(p, w, v)\<leftarrow>supplied_of ws ps. w * normalize_spec v p),
              t + (\<Sum>(p, w, v)\<leftarrow>supplied_of ws ps. w))"
  using assms
proof (induction ws arbitrary: s t)
  case Nil
  then show ?case by simp
next
  case (Cons pw ws)
  obtain p w where pw: "pw = (p, w)" by (cases pw)
  with Cons.prems have mem: "(p, w) \<in> set DEFAULT_WEIGHTS" and sub: "set ws \<subseteq> set DEFAULT_WEIGHTS"
    by auto
  have dist: "distinct (map fst DEFAULT_WEIGHTS)" by (simp add: DEFAULT_WEIGHTS_def)
  from mem dist have look: "map_of DEFAULT_WEIGHTS p = Some w" by simp
  from mem have "p \<in> fst ` set DEFAULT_WEIGHTS" by force
  note nrm = normalize_default(1) [OF this]
  show ?case
  proof (cases "ps p")
    case None
    with pw Cons.IH [OF sub] show ?thesis by simp
  next
    case (Some v)
    with pw look nrm [of v] Cons.IH [OF sub] show ?thesis by (simp add: algebra_simps)
  qed
qed

lemma supplied_of_bounds:
  assumes "set ws \<subseteq> set DEFAULT_WEIGHTS"
  shows "0 \<le> (\<Sum>(p, w, v)\<leftarrow>supplied_of ws ps. w * normalize_spec v p) \<and>
    (\<Sum>(p, w, v)\<leftarrow>supplied_of ws ps. w * normalize_spec v p) \<le> (\<Sum>(p, w, v)\<leftarrow>supplied_of ws ps. w) \<and>
    0 \<le> (\<Sum>(p, w, v)\<leftarrow>supplied_of ws ps. w) \<and>
    (supplied_of ws ps \<noteq> [] \<longrightarrow> 0 < (\<Sum>(p, w, v)\<leftarrow>supplied_of ws ps. w))"
  using assms
proof (induction ws)
  case Nil
  show ?case by simp
next
  case (Cons pw ws)
  obtain p w where pw: "pw = (p, w)" by (cases pw)
  with Cons.prems have mem: "(p, w) \<in> set DEFAULT_WEIGHTS" and sub: "set ws \<subseteq> set DEFAULT_WEIGHTS"
    by auto
  from mem have w: "0 < w" by (auto simp: DEFAULT_WEIGHTS_def)
  from mem have "p \<in> fst ` set DEFAULT_WEIGHTS" by force
  note n = normalize_default(2,3) [OF this]
  note IH = Cons.IH [OF sub]
  show ?case
  proof (cases "ps p")
    case None
    with pw IH show ?thesis by simp
  next
    case (Some v)
    have a: "0 \<le> w * normalize_spec v p" using w n [of v] by simp
    have b: "w * normalize_spec v p \<le> w" using w n [of v] by simp
    from Some pw IH a b w show ?thesis by (auto intro: add_mono add_pos_nonneg)
  qed
qed

lemma available_params_Nil: "available_params ws ps = [] \<longleftrightarrow> supplied_of ws ps = []"
  by (induction ws) (auto split: option.splits)

lemma supplied_of_none: "(\<forall>p\<in>fst ` set ws. ps p = None) \<Longrightarrow> supplied_of ws ps = []"
  by (induction ws) auto

text \<open>
  Claim C1. With the default weights and thresholds, \<open>calculate_emi\<close> returns, for every
  input mapping, the weight-renormalised sum of the normalised supplied parameters, a value
  in \<open>[0,1]\<close>; when none of the seven parameters is supplied it returns 0 and raises nothing.
\<close>

theorem calculate_emi_default:
  "calculate_emi parameters None None = Inr (EMI_spec parameters) \<and>
   0 \<le> EMI_spec parameters \<and> EMI_spec parameters \<le> 1 \<and>
   ((\<forall>p\<in>{''mcc'', ''smg'', ''twi'', ''iaf'', ''atp'', ''pbdr'', ''cnea''}. parameters p = None)
      \<longrightarrow> calculate_emi parameters None None = Inr 0)"
proof -
  let ?S = "supplied_of DEFAULT_WEIGHTS parameters"
  let ?num = "(\<Sum>(p, w, v)\<leftarrow>?S. w * normalize_spec v p)"
  let ?den = "(\<Sum>(p, w, v)\<leftarrow>?S. w)"
  have S: "supplied parameters = ?S" unfolding supplied_def by (rule supplied_eq)
  have acc: "emi_accumulate DEFAULT_WEIGHTS None (available_params DEFAULT_WEIGHTS parameters) (0, 0)
      = Inr (?num, ?den)"
    using emi_accumulate_default [of DEFAULT_WEIGHTS parameters 0 0] by simp
  from supplied_of_bounds [of DEFAULT_WEIGHTS parameters, OF subset_refl]
  have b: "0 \<le> ?num" "?num \<le> ?den" "?S \<noteq> [] \<Longrightarrow> 0 < ?den" by simp_all
  have eq: "calculate_emi parameters None None = Inr (EMI_spec parameters)"
  proof (cases "?S = []")
    case True
    then show ?thesis
      by (simp add: calculate_emi_def EMI_spec_def S available_params_Nil)
  next
    case False
    with b(3) have "0 < ?den" by blast
    with False acc show ?thesis
      by (simp add: calculate_emi_def EMI_spec_def S available_params_Nil Let_def)
  qed
  have rng: "0 \<le> EMI_spec parameters \<and> EMI_spec parameters \<le> 1"
  proof (cases "?S = []")
    case True
    then show ?thesis by (simp add: EMI_spec_def S)
  next
    case False
    with b(3) have "0 < ?den" by blast
    with False b(1,2) show ?thesis by (simp add: EMI_spec_def S Let_def)
  qed
  have none: "(\<forall>p\<in>{''mcc'', ''smg'', ''twi'', ''iaf'', ''atp'', ''pbdr'', ''cnea''}. parameters p = None)
      \<longrightarrow> calculate_emi parameters None None = Inr 0"
  proof
    assume "\<forall>p\<in>{''mcc'', ''smg'', ''twi'', ''iaf'', ''atp'', ''pbdr'', ''cnea''}. parameters p = None"
    then have "\<forall>p\<in>fst ` set DEFAULT_WEIGHTS. parameters p = None"
      by (simp add: DEFAULT_WEIGHTS_def)
    then have "?S = []" by (rule supplied_of_none)
    then show "calculate_emi parameters None None = Inr 0"
      by (simp add: calculate_emi_def available_params_Nil)
  qed
  from eq rng none show ?thesis by blast
qed

theorem normalize_parameter_range_witness:
  "thresholds_or_default None ''atp'' = Some \<lparr>tmin = 0, tmax = 6000\<rparr> \<and>
   normalize_parameter 3000 ''atp'' None = Inr (1 / 2) \<and>
   normalize_parameter 7000 ''atp'' None = Inr 1 \<and>
   thresholds_or_default None ''xyz'' = None \<and>
   normalize_parameter 3000 ''xyz'' None = Inl (UnknownParameter ''xyz'')"
proof -
  have t: "thresholds_or_default None ''atp'' = Some \<lparr>tmin = 0, tmax = 6000\<rparr>"
    by (simp add: thresholds_or_default_def CRITICAL_THRESHOLDS_def)
  have u: "thresholds_or_default None ''xyz'' = None"
    by (simp add: thresholds_or_default_def CRITICAL_THRESHOLDS_def)
  from normalize_parameter_range [where thresholds = None and p = "''atp''" and v = 3000] t
  have a: "normalize_parameter 3000 ''atp'' None = Inr (1 / 2)" by auto
  from normalize_parameter_range [where thresholds = None and p = "''atp''" and v = 7000] t
  have b: "normalize_parameter 7000 ''atp'' None = Inr 1" by auto
  from normalize_parameter_range [where thresholds = None and p = "''xyz''" and v = 3000] u
  have c: "normalize_parameter 3000 ''xyz'' None = Inl (UnknownParameter ''xyz'')" by simp
  from t u a b c show ?thesis by blast
qed

theorem calculate_emi_default_witness:
  "calculate_emi Map.empty None None = Inr 0 \<and>
   calculate_emi [''mcc'' \<mapsto> 1 / 2, ''atp'' \<mapsto> 7000] None None = Inr (23 / 36)"
proof -
  have h: "\<forall>p\<in>{''mcc'', ''smg'', ''twi'', ''iaf'', ''atp'', ''pbdr'', ''cnea''}.
      Map.empty p = (None :: real option)"
    by simp
  from calculate_emi_default [of Map.empty] h
  have a: "calculate_emi Map.empty None None = Inr 0" by blast
  have "EMI_spec [''mcc'' \<mapsto> 1 / 2, ''atp'' \<mapsto> 7000] = 23 / 36"
    by (simp add: EMI_spec_def supplied_def DEFAULT_WEIGHTS_def normalize_spec_def
        CRITICAL_THRESHOLDS_def np_clip_def)
  with calculate_emi_default [of "[''mcc'' \<mapsto> 1 / 2, ''atp'' \<mapsto> 7000]"]
  have b: "calculate_emi [''mcc'' \<mapsto> 1 / 2, ''atp'' \<mapsto> 7000] None None = Inr (23 / 36)"
    by simp
  from a b show ?thesis by blast
qed

subsection \<open>Shock indicator mappings\<close>

lemma olivine_mono: "a \<le> b \<Longrightarrow> olivine_to_pressure a \<le> olivine_to_pressure b"
  by (simp add: olivine_to_pressure_def)

lemma feldspar_mono: "a \<le> b \<Longrightarrow> feldspar_to_pressure a \<le> feldspar_to_pressure b"
  by (simp add: feldspar_to_pressure_def)

lemma metal_mono: "a \<le> b \<Longrightarrow> metal_to_pressure a \<le> metal_to_pressure b"
  by (simp add: metal_to_pressure_def)

lemma high_pressure_mono:
  "a \<le> b \<Longrightarrow> high_pressure_to_pressure a \<le> high_pressure_to_pressure b"
  by (simp add: high_pressure_to_pressure_def)

lemma sulfide_mono: "a \<le> b \<Longrightarrow> sulfide_to_pressure a \<le> sulfide_to_pressure b"
  by (simp add: sulfide_to_pressure_def)

lemma porosity_antimono: "a \<le> b \<Longrightarrow> porosity_to_pressure b \<le> porosity_to_pressure a"
  by (simp add: porosity_to_pressure_def)

text \<open>
  Claim C9. The table \<open>INDICATOR_FUNCTIONS\<close> holds the six indicator-to-pressure mappings,
  and each is monotonic on the indicator range \<open>[0,1]\<close>: for \<open>0 \<le> a \<le> b \<le> 1\<close> the mapped
  pressures are ordered the same way for every such pair, non-increasing for the porosity
  mapping and non-decreasing for the other five.
\<close>

theorem indicator_functions_monotonic:
  "map fst INDICATOR_FUNCTIONS =
     [''olivine_planar'', ''feldspar_state'', ''metal_melting'', ''high_pressure_phases'',
      ''sulfide_state'', ''porosity''] \<and>
   (\<forall>(name, f)\<in>set INDICATOR_FUNCTIONS. \<forall>a b. 0 \<le> a \<and> a \<le> b \<and> b \<le> 1 \<longrightarrow>
      (if name = ''porosity'' then f b \<le> f a else f a \<le> f b))"
  by (simp add: INDICATOR_FUNCTIONS_def olivine_mono feldspar_mono metal_mono
      high_pressure_mono sulfide_mono porosity_antimono)

theorem indicator_functions_monotonic_witness:
  "olivine_to_pressure (1 / 5) \<le> olivine_to_pressure (1 / 2) \<and>
   porosity_to_pressure (1 / 2) \<le> porosity_to_pressure (1 / 5) \<and>
   olivine_to_pressure (1 / 5) = 8 \<and> olivine_to_pressure (1 / 2) = 28"
proof -
  have m1: "(''olivine_planar'', olivine_to_pressure) \<in> set INDICATOR_FUNCTIONS"
    and m2: "(''porosity'', porosity_to_pressure) \<in> set INDICATOR_FUNCTIONS"
    by (simp_all add: INDICATOR_FUNCTIONS_def)
  have r: "(0::real) \<le> 1 / 5 \<and> (1::real) / 5 \<le> 1 / 2 \<and> (1::real) / 2 \<le> 1" by simp
  from indicator_functions_monotonic m1 r
  have a: "olivine_to_pressure (1 / 5) \<le> olivine_to_pressure (1 / 2)" by fastforce
  from indicator_functions_monotonic m2 r
  have b: "porosity_to_pressure (1 / 2) \<le> porosity_to_pressure (1 / 5)" by fastforce
  have c: "olivine_to_pressure (1 / 5) = 8" "olivine_to_pressure (1 / 2) = 28"
    by (simp_all add: olivine_to_pressure_def)
  from a b c show ?thesis by blast
qed

subsection \<open>Parent body differentiation ratio\<close>

lemma finite_positive_iff:
  "(v = PyNone \<or> \<not> is_int_or_float v \<or> py_le v 0 \<or> \<not> np_isfinite v) \<longleftrightarrow> finite_positive v = None"
  by (cases v) auto

lemma finite_positive_value: "finite_positive v = Some x \<Longrightarrow> num_value v = x"
  by (cases v) (auto split: if_splits)

lemma CI_positive: "map_of CI_HSE_ABUNDANCES e = Some c \<Longrightarrow> 0 < c"
  by (auto simp: CI_HSE_ABUNDANCES_def split: if_splits)

lemma pbdr_loop_retained:
  "pbdr_loop hse (ratios, elements) =
     (ratios @ map (\<lambda>(e, x, c). x / c) (retained hse), elements @ map fst (retained hse))"
proof (induction hse arbitrary: ratios elements)
  case Nil
  then show ?case by (simp add: retained_def)
next
  case (Cons ev hse)
  obtain e v where ev: "ev = (e, v)" by (cases ev)
  have step: "retained ((e, v) # hse) =
      (case finite_positive v of None \<Rightarrow> []
       | Some x \<Rightarrow> (case map_of CI_HSE_ABUNDANCES e of None \<Rightarrow> [] | Some c \<Rightarrow> [(e, x, c)]))
      @ retained hse"
    by (simp add: retained_def split: option.splits)
  show ?case
  proof (cases "finite_positive v")
    case None
    then have "v = PyNone \<or> \<not> is_int_or_float v \<or> py_le v 0 \<or> \<not> np_isfinite v"
      using finite_positive_iff [of v] by blast
    with None ev step Cons.IH show ?thesis by simp
  next
    case (Some x)
    then have ok: "\<not> (v = PyNone \<or> \<not> is_int_or_float v \<or> py_le v 0 \<or> \<not> np_isfinite v)"
      using finite_positive_iff [of v] by simp
    note nv = finite_positive_value [OF Some]
    show ?thesis
    proof (cases "map_of CI_HSE_ABUNDANCES e")
      case None
      with Some ok ev step Cons.IH show ?thesis by simp
    next
      case c: (Some c)
      from CI_positive [OF c] have "\<not> c \<le> 0" by simp
      with c Some ok nv ev step Cons.IH show ?thesis by simp
    qed
  qed
qed

text \<open>
  Claim C8. For every HSE input mapping, \<open>calculate_pbdr\<close> retains exactly the entries
  whose value is a finite, positive number and whose element has a chondritic reference
  (the list \<open>retained\<close>), drops every other entry without an error, reports the retained
  elements in \<open>elements_analyzed\<close>, and returns
  \<open>PBDR = clamp(1 - mean(measured / reference), 0, 1)\<close> over them; when nothing is retained
  it returns \<open>PBDR = 0\<close> with the classification "Undifferentiated (Chondritic)".
\<close>

theorem calculate_pbdr_retained:
  "(let R = retained hse_data; res = calculate_pbdr hse_data
    in elements_analyzed res = map (\<lambda>(e, x, c). e) R \<and>
       pbdr res = (if R = [] then 0
                   else max 0 (min 1 (1 - (\<Sum>(e, x, c)\<leftarrow>R. x / c) / real (length R)))) \<and>
       0 \<le> pbdr res \<and> pbdr res \<le> 1 \<and>
       (R = [] \<longrightarrow> differentiation res = ''Undifferentiated (Chondritic)''))"
proof -
  have loop: "pbdr_loop hse_data ([], []) =
      (map (\<lambda>(e, x, c). x / c) (retained hse_data), map fst (retained hse_data))"
    using pbdr_loop_retained [of hse_data "[]" "[]"] by simp
  have fst_eq: "map fst (retained hse_data) = map (\<lambda>(e, x, c). e) (retained hse_data)"
    by (rule map_cong) auto
  show ?thesis
  proof (cases "retained hse_data = []")
    case True
    with loop show ?thesis by (simp add: calculate_pbdr_def Let_def)
  next
    case False
    with loop fst_eq show ?thesis
      by (simp add: calculate_pbdr_def Let_def np_mean_def)
  qed
qed

lemma retained_example:
  "retained [(''os'', PyNum 486), (''ir'', PyNone), (''ru'', PyStr ''abc''), (''pt'', PyNum 505),
             (''pd'', PyNum (- 10)), (''xx'', PyNum 3), (''au'', PyPosInf)]
   = [(''os'', 486, 486), (''pt'', 505, 1010)]"
  by (simp add: retained_def CI_HSE_ABUNDANCES_def)

theorem calculate_pbdr_retained_witness:
  "elements_analyzed (calculate_pbdr
      [(''os'', PyNum 486), (''ir'', PyNone), (''ru'', PyStr ''abc''), (''pt'', PyNum 505),
       (''pd'', PyNum (- 10)), (''xx'', PyNum 3), (''au'', PyPosInf)]) = [''os'', ''pt''] \<and>
   pbdr (calculate_pbdr
      [(''os'', PyNum 486), (''ir'', PyNone), (''ru'', PyStr ''abc''), (''pt'', PyNum 505),
       (''pd'', PyNum (- 10)), (''xx'', PyNum 3), (''au'', PyPosInf)]) = 1 / 4 \<and>
   retained [] = [] \<and>
   pbdr (calculate_pbdr []) = 0 \<and>
   differentiation (calculate_pbdr []) = ''Undifferentiated (Chondritic)''"
proof -
  have e: "retained [] = []" by (simp add: retained_def)
  from calculate_pbdr_retained [of "[]"] e
  have a: "pbdr (calculate_pbdr []) = 0 \<and>
      differentiation (calculate_pbdr []) = ''Undifferentiated (Chondritic)''"
    by (simp add: Let_def)
  from calculate_pbdr_retained [of "[(''os'', PyNum 486), (''ir'', PyNone), (''ru'', PyStr ''abc''), (''pt'', PyNum 505),
       (''pd'', PyNum (- 10)), (''xx'', PyNum 3), (''au'', PyPosInf)]"]
  have b: "elements_analyzed (calculate_pbdr
      [(''os'', PyNum 486), (''ir'', PyNone), (''ru'', PyStr ''abc''), (''pt'', PyNum 505),
       (''pd'', PyNum (- 10)), (''xx'', PyNum 3), (''au'', PyPosInf)]) = [''os'', ''pt''] \<and>
   pbdr (calculate_pbdr
      [(''os'', PyNum 486), (''ir'', PyNone), (''ru'', PyStr ''abc''), (''pt'', PyNum 505),
       (''pd'', PyNum (- 10)), (''xx'', PyNum 3), (''au'', PyPosInf)]) = 1 / 4"
    unfolding retained_example Let_def by simp
  from a b e show ?thesis by blast
qed

subsection \<open>Radioactive nuclide ages\<close>

lemma map_of_dict_set: "map_of (dict_set al k v) = (map_of al)(k \<mapsto> v)"
  by (induction al) (auto simp: fun_eq_iff)

lemma nuclide_loop_lookup:
  "map_of (fst (nuclide_loop body ns nd (ags, uncs))) n =
     (if n \<in> set ns then (case body nd n of Some (a, u) \<Rightarrow> Some a | None \<Rightarrow> map_of ags n)
      else map_of ags n) \<and>
   map_of (snd (nuclide_loop body ns nd (ags, uncs))) n =
     (if n \<in> set ns then (case body nd n of Some (a, u) \<Rightarrow> Some u | None \<Rightarrow> map_of uncs n)
      else map_of uncs n)"
proof (induction ns arbitrary: ags uncs)
  case Nil
  then show ?case by simp
next
  case (Cons m ns)
  show ?case
  proof (cases "body nd m")
    case None
    with Cons.IH [of ags uncs] show ?thesis by (auto split: option.splits)
  next
    case (Some au)
    obtain a u where au: "au = (a, u)" by (cases au)
    with Some Cons.IH [of "dict_set ags m a" "dict_set uncs m u"] show ?thesis
      by (auto simp: map_of_dict_set split: option.splits)
  qed
qed

lemma radioactive_entry_value:
  assumes "nuclide_data nuclide = Some (Some c)" "0 < c"
    and "map_of HALF_LIVES nuclide = Some half_life"
    and "map_of PRODUCTION_RATES nuclide = Some P"
  shows "radioactive_entry nuclide_data nuclide =
    (let decay_constant = ln 2 / half_life; saturation = P / decay_constant
     in if c < saturation
        then Some (- ln (1 - c / saturation) / decay_constant,
                   12 / 100 * (- ln (1 - c / saturation) / decay_constant))
        else Some (3 * half_life, 20 / 100 * (3 * half_life)))"
proof -
  from assms(3) have h: "half_life \<noteq> 0" by (auto simp: HALF_LIVES_def split: if_splits)
  from assms(4) have p: "0 < P" by (auto simp: PRODUCTION_RATES_def split: if_splits)
  from assms h p show ?thesis by (simp add: radioactive_entry_def Let_def)
qed

lemma calculate_cnea_tables:
  "nuclide_ages nd = (ags, uncs) \<Longrightarrow> ags \<noteq> [] \<Longrightarrow>
   ages (calculate_cnea nd) = ags \<and> uncertainties (calculate_cnea nd) = uncs"
  by (simp add: calculate_cnea_def Let_def split: prod.splits)

text \<open>
  Claim C7. For a radioactive nuclide (be10, al26 or cl36) with a positive concentration,
  with \<open>decay_constant = ln 2 / half_life\<close> and
  \<open>saturation = production_rate / decay_constant\<close>: below saturation the age stored for the
  nuclide is \<open>- ln (1 - concentration / saturation) / decay_constant\<close> and its uncertainty is
  12% of that age; at or above saturation the age is exactly three half-lives and the
  uncertainty 20% of it.
\<close>

theorem cnea_radioactive_age:
  assumes "nuclide \<in> {''be10'', ''al26'', ''cl36''}"
    and "nuclide_data nuclide = Some (Some c)" and "0 < c"
    and "map_of HALF_LIVES nuclide = Some half_life"
    and "map_of PRODUCTION_RATES nuclide = Some P"
  shows "(let decay_constant = ln 2 / half_life;
              saturation = P / decay_constant;
              res = calculate_cnea nuclide_data
          in if c < saturation
             then map_of (ages res) nuclide = Some (- ln (1 - c / saturation) / decay_constant) \<and>
                  map_of (uncertainties res) nuclide =
                    Some (12 / 100 * (- ln (1 - c / saturation) / decay_constant))
             else map_of (ages res) nuclide = Some (3 * half_life) \<and>
                  map_of (uncertainties res) nuclide = Some (20 / 100 * (3 * half_life)))"
proof -
  obtain a0 u0 where st_eq:
    "nuclide_loop stable_entry [''he3'', ''ne21'', ''ar38''] nuclide_data ([], []) = (a0, u0)"
    by (cases "nuclide_loop stable_entry [''he3'', ''ne21'', ''ar38''] nuclide_data ([], [])")
  obtain ags uncs where fin_eq: "nuclide_ages nuclide_data = (ags, uncs)"
    by (cases "nuclide_ages nuclide_data")
  from st_eq fin_eq have loop:
    "nuclide_loop radioactive_entry [''be10'', ''al26'', ''cl36''] nuclide_data (a0, u0) = (ags, uncs)"
    by (simp only: nuclide_ages_def)
  from assms(1) have mem: "nuclide \<in> set [''be10'', ''al26'', ''cl36'']" by simp
  note look = nuclide_loop_lookup [of radioactive_entry "[''be10'', ''al26'', ''cl36'']"
      nuclide_data a0 u0 nuclide, unfolded loop fst_conv snd_conv]
  note ent = radioactive_entry_value [of nuclide_data nuclide c half_life P, OF assms(2-5)]
  have ags: "map_of ags nuclide = map_option fst (radioactive_entry nuclide_data nuclide)"
    and uncs: "map_of uncs nuclide = map_option snd (radioactive_entry nuclide_data nuclide)"
    using look mem ent by (simp_all add: Let_def split: if_splits)
  from ags ent have ne: "ags \<noteq> []" by (auto simp: Let_def split: if_splits)
  note res = calculate_cnea_tables [OF fin_eq ne]
  from res ags uncs ent show ?thesis by (simp add: Let_def)
qed

lemma ln2_bounds: "1 / 2 \<le> ln (2::real)" "ln (2::real) < 1"
proof -
  have "ln (1 / 2 :: real) \<le> 1 / 2 - 1" by (rule ln_le_minus_one) simp
  moreover have "ln (1 / 2 :: real) = - ln 2" by (simp add: ln_div)
  ultimately show "1 / 2 \<le> ln (2::real)" by simp
  show "ln (2::real) < 1" by (rule ln_2_less_1)
qed

theorem cnea_radioactive_age_witness:
  "map_of (ages (calculate_cnea [''be10'' \<mapsto> Some 1])) ''be10'' = Some (3 * (1387 / 1000)) \<and>
   map_of (uncertainties (calculate_cnea [''be10'' \<mapsto> Some 1])) ''be10'' =
     Some (20 / 100 * (3 * (1387 / 1000))) \<and>
   map_of (ages (calculate_cnea [''al26'' \<mapsto> Some (1 / 100)])) ''al26'' =
     Some (- ln (1 - (1 / 100) / ((7 / 100) / (ln 2 / (717 / 1000)))) / (ln 2 / (717 / 1000)))"
proof -
  have sat: "\<not> (1::real) < (5 / 100) / (ln 2 / (1387 / 1000))"
    using ln2_bounds(1) by (simp add: field_simps)
  have unsat: "(1::real) / 100 < (7 / 100) / (ln 2 / (717 / 1000))"
    using ln2_bounds by (simp add: field_simps)
  have a: "map_of (ages (calculate_cnea [''be10'' \<mapsto> Some 1])) ''be10'' = Some (3 * (1387 / 1000)) \<and>
   map_of (uncertainties (calculate_cnea [''be10'' \<mapsto> Some 1])) ''be10'' =
     Some (20 / 100 * (3 * (1387 / 1000)))"
    using cnea_radioactive_age [of "''be10''" "[''be10'' \<mapsto> Some 1]" 1 "1387 / 1000" "5 / 100"] sat
    by (simp add: HALF_LIVES_def PRODUCTION_RATES_def Let_def)
  have b: "map_of (ages (calculate_cnea [''al26'' \<mapsto> Some (1 / 100)])) ''al26'' =
     Some (- ln (1 - (1 / 100) / ((7 / 100) / (ln 2 / (717 / 1000)))) / (ln 2 / (717 / 1000)))"
    using cnea_radioactive_age [of "''al26''" "[''al26'' \<mapsto> Some (1 / 100)]" "1 / 100" "717 / 1000" "7 / 100"] unsat
    by (simp add: HALF_LIVES_def PRODUCTION_RATES_def Let_def)
  from a b show ?thesis by blast
qed

subsection \<open>Mahalanobis distance\<close>

lemma upt3: "[0..<3] = [0, 1, 2]" "[0..<2] = [0, 1]" "[0..<1] = [0]"
  by (simp_all add: upt_rec)

lemma inv_2I: "linalg_inv [[2, 0, 0], [0, 2, 0], [0, 0, 2]] = Some [[1/2, 0, 0], [0, 1/2, 0], [0, 0, 1/2]]"
  by (simp add: linalg_inv_def is_square_def Let_def upt3 minor_def drop_col_def)

lemma inv_zero: "linalg_inv [[0, 0], [0, 0]] = None"
  by (simp add: linalg_inv_def is_square_def Let_def upt3 minor_def drop_col_def)

lemma vec_sub_self: "vec_sub x x = Inr (replicate (length x) 0)"
  by (simp add: map_replicate_const [symmetric] zip_same_conv_map comp_def)

lemma sum_zero_row: "(\<Sum>i\<leftarrow>[0..<n]. replicate n (0::real) ! i * f i) = 0"
proof -
  have "map (\<lambda>i. replicate n (0::real) ! i * f i) [0..<n] = map (\<lambda>i. 0) [0..<n]"
    by (rule map_cong) auto
  then have "(\<Sum>i\<leftarrow>[0..<n]. replicate n (0::real) ! i * f i) = (\<Sum>i\<leftarrow>[0..<n]. 0)"
    by (rule arg_cong)
  also have "\<dots> = 0" by simp
  finally show ?thesis .
qed

lemma vec_mat_zero: "vec_mat (replicate n 0) m = replicate (length m) 0"
  by (simp add: vec_mat_def sum_zero_row map_replicate_const)

lemma dot_zero: "dot (replicate n 0) v = 0"
proof (induction n arbitrary: v)
  case 0
  show ?case by (simp add: dot_def)
next
  case (Suc n)
  show ?case
  proof (cases v)
    case Nil
    then show ?thesis by (simp add: dot_def)
  next
    case (Cons a w)
    with Suc [of w] show ?thesis by (simp add: dot_def)
  qed
qed

lemma linalg_inv_length: "linalg_inv cov = Some inv_cov \<Longrightarrow> length inv_cov = length cov"
  by (auto simp: linalg_inv_def Let_def split: if_splits)

text \<open>
  Claim C5. For every vector \<open>x\<close> and every invertible covariance matrix of matching size,
  the Mahalanobis distance of \<open>x\<close> to itself is exactly 0.
\<close>

theorem mahalanobis_self_zero:
  assumes "linalg_inv cov = Some inv_cov" and "length x = length cov"
  shows "mahalanobis_distance x x cov = Inr (Fin 0)"
proof -
  from assms linalg_inv_length [OF assms(1)] have len: "length x = length inv_cov" by simp
  have "dot (vec_mat (replicate (length x) 0) inv_cov) (replicate (length x) 0) = 0"
    by (simp add: vec_mat_zero dot_zero)
  with assms(1) len show ?thesis
    by (simp add: mahalanobis_distance_def vec_sub_self np_sqrt_def del: vec_sub.simps)
qed

theorem mahalanobis_self_zero_witness:
  "linalg_inv [[2, 0, 0], [0, 2, 0], [0, 0, 2]] = Some [[1 / 2, 0, 0], [0, 1 / 2, 0], [0, 0, 1 / 2]] \<and>
   mahalanobis_distance [37 / 2, 33 / 2, 3 / 4] [37 / 2, 33 / 2, 3 / 4]
     [[2, 0, 0], [0, 2, 0], [0, 0, 2]] = Inr (Fin 0)"
  using mahalanobis_self_zero [OF inv_2I, of "[37 / 2, 33 / 2, 3 / 4]"] inv_2I by simp

lemma vec_sub_same_length:
  "length x = length c \<Longrightarrow> vec_sub x c = Inr (map (\<lambda>(a, b). a - b) (zip x c))"
  by simp

lemma linalg_inv_None_iff: "linalg_inv cov = None \<longleftrightarrow> \<not> is_square cov \<or> det cov = 0"
  by (simp add: linalg_inv_def Let_def)

text \<open>
  Claim C6, as the code has it. For every observation and centroid of one length and every
  covariance matrix that cannot be inverted, \<open>mahalanobis_distance\<close> does not fail: it
  returns the Euclidean distance between observation and centroid. What it returns is the
  bare number; nothing in the result tells the caller that the fallback was taken.
\<close>

theorem mahalanobis_singular_fallback:
  assumes "linalg_inv cov = None" and "length x = length centroid"
  shows "mahalanobis_distance x centroid cov =
           Inr (Fin (sqrt (\<Sum>(a, b)\<leftarrow>zip x centroid. (a - b)\<^sup>2))) \<and>
         mahalanobis_distance x centroid cov = euclidean_distance x centroid"
proof -
  have "(\<Sum>d\<leftarrow>map (\<lambda>(a, b). a - b) (zip x centroid). d\<^sup>2) = (\<Sum>(a, b)\<leftarrow>zip x centroid. (a - b)\<^sup>2)"
    by (simp add: comp_def case_prod_unfold)
  with assms show ?thesis
    by (simp add: mahalanobis_distance_def euclidean_distance_def norm2_def
        vec_sub_same_length del: vec_sub.simps)
qed

theorem mahalanobis_singular_fallback_witness:
  "linalg_inv [[0, 0], [0, 0]] = None \<and>
   mahalanobis_distance [1, 0] [0, 0] [[0, 0], [0, 0]] = Inr (Fin 1)"
  using mahalanobis_singular_fallback [OF inv_zero, of "[1, 0]" "[0, 0]"] inv_zero by simp

lemma inv_I2: "linalg_inv [[1, 0], [0, 1]] = Some [[1, 0], [0, 1]]"
  by (simp add: linalg_inv_def is_square_def Let_def upt3 minor_def drop_col_def)

text \<open>
  The same observation and centroid give the same returned value with a singular covariance
  (the fallback) and with an invertible one (no fallback): the result does not document
  the fallback.
\<close>

theorem fallback_not_recorded:
  "linalg_inv [[0, 0], [0, 0]] = None \<and>
   linalg_inv [[1, 0], [0, 1]] = Some [[1, 0], [0, 1]] \<and>
   mahalanobis_distance [1, 0] [0, 0] [[0, 0], [0, 0]] = Inr (Fin 1) \<and>
   mahalanobis_distance [1, 0] [0, 0] [[1, 0], [0, 1]] = Inr (Fin 1)"
  by (simp add: inv_zero inv_I2 mahalanobis_distance_def norm2_def np_sqrt_def dot_def
      vec_mat_def upt3)

subsection \<open>Nearest-group searches and empty inputs\<close>

lemma norm2_nonneg: "0 \<le> norm2 xs"
  by (auto simp: norm2_def intro!: sum_list_nonneg)

lemma iaf_loop_zero:
  "\<exists>ds'. iaf_loop gs obs (Fin 0, g, c, ds) = (Fin 0, g, c, ds')"
proof (induction gs arbitrary: ds)
  case Nil
  show ?case by simp
next
  case (Cons a gs)
  obtain g' c' where a: "a = (g', c')" by (cases a)
  have "\<not> norm2 (map (\<lambda>(a, b). a - b) (zip obs c')) < 0"
    using norm2_nonneg [of "map (\<lambda>(a, b). a - b) (zip obs c')"] by simp
  with a Cons [of "dict_set ds g' (norm2 (map (\<lambda>(a, b). a - b) (zip obs c')))"]
  show ?case by (simp add: Let_def)
qed

lemma iaf_empty:
  "iaf (calculate_iaf Map.empty) = 1 \<and>
   iaf_group (calculate_iaf Map.empty) = Some ''CI'' \<and>
   iaf_distance (calculate_iaf Map.empty) = Fin 0 \<and>
   is_outlier (calculate_iaf Map.empty) = False"
proof -
  obtain rest where tab: "GROUP_ISOTOPE_CENTROIDS = (''CI'', [0, 0, 0, 0, 0, 0, 0]) # rest"
    by (simp add: GROUP_ISOTOPE_CENTROIDS_def)
  have obs: "map (get_or_zero Map.empty) ISOTOPE_NAMES = [0, 0, 0, 0, 0, 0, 0]"
    by (simp add: ISOTOPE_NAMES_def get_or_zero_def)
  from iaf_loop_zero [of rest "[0, 0, 0, 0, 0, 0, 0]" "Some ''CI''" "Some [0, 0, 0, 0, 0, 0, 0]"
      "[(''CI'', 0)]"]
  obtain ds' where "iaf_loop rest [0, 0, 0, 0, 0, 0, 0]
      (Fin 0, Some ''CI'', Some [0, 0, 0, 0, 0, 0, 0], [(''CI'', 0)]) =
      (Fin 0, Some ''CI'', Some [0, 0, 0, 0, 0, 0, 0], ds')" by blast
  then have "iaf_loop GROUP_ISOTOPE_CENTROIDS [0, 0, 0, 0, 0, 0, 0] (PosInf, None, None, []) =
      (Fin 0, Some ''CI'', Some [0, 0, 0, 0, 0, 0, 0], ds')"
    by (simp add: tab norm2_def Let_def)
  then show ?thesis
    by (simp add: calculate_iaf_def obs Let_def GROUP_DISPERSION_def)
qed

lemma py_lt_Fin_iff: "py_lt d (Fin b) \<longleftrightarrow> (\<exists>a. d = Fin a \<and> a < b)"
  by (cases d) auto

lemma py_lt_PosInf_iff: "py_lt d PosInf \<longleftrightarrow> (\<exists>a. d = Fin a)"
  by (cases d) auto

lemma py_lt_left_Fin: "py_lt d m \<Longrightarrow> \<exists>a. d = Fin a"
  by (cases d; cases m) auto

lemma py_lt_chain1: "py_lt d m \<Longrightarrow> \<not> py_lt d e \<Longrightarrow> \<not> py_lt m e"
  by (cases d; cases m; cases e) auto

lemma py_lt_chain2: "m \<noteq> NaN \<Longrightarrow> \<not> py_lt d m \<Longrightarrow> \<not> py_lt m e \<Longrightarrow> \<not> py_lt d e"
  by (cases d; cases m; cases e) auto

lemma stony_loop_step:
  assumes "fa cd \<noteq> None" and "np_array obs = Inr x"
    and "stony_distance x (g, cd) = Inr d"
  shows "\<exists>cv. np_array [fa cd, fs cd, d17O cd] = Inr cv \<and>
     stony_loop ((g, cd) # rest) obs (m, bg, bc) =
       (if py_lt d m then stony_loop rest obs (d, Some g, Some cv)
        else stony_loop rest obs (m, bg, bc))"
  using assms by (auto simp: stony_distance_def split: sum.splits)

lemma stony_loop_skip:
  "fa cd = None \<Longrightarrow> stony_loop ((g, cd) # rest) obs acc = stony_loop rest obs acc"
  by (cases acc) simp

lemma stony_loop_invariant:
  assumes "np_array obs = Inr x"
    and "\<forall>gc\<in>set gs. fa (snd gc) \<noteq> None \<longrightarrow> (\<exists>d. stony_distance x gc = Inr d)"
    and "m \<noteq> NaN"
  shows "\<exists>dmin gb cb. stony_loop gs obs (m, bg, bc) = Inr (dmin, gb, cb) \<and>
      dmin \<noteq> NaN \<and> \<not> py_lt m dmin \<and>
      (\<forall>gc\<in>set gs. fa (snd gc) \<noteq> None \<longrightarrow>
          (\<forall>d. stony_distance x gc = Inr d \<longrightarrow> \<not> py_lt d dmin)) \<and>
      ((dmin, gb, cb) = (m, bg, bc) \<or>
       (\<exists>gc\<in>set gs. fa (snd gc) \<noteq> None \<and> gb = Some (fst gc) \<and>
          stony_distance x gc = Inr dmin \<and> (\<exists>r. dmin = Fin r)))"
  using assms(2,3)
proof (induction gs arbitrary: m bg bc)
  case Nil
  then show ?case by (cases m) auto
next
  case (Cons gc gs)
  obtain g cd where gc: "gc = (g, cd)" by (cases gc)
  from Cons.prems(1) have rest: "\<forall>gc\<in>set gs. fa (snd gc) \<noteq> None \<longrightarrow> (\<exists>d. stony_distance x gc = Inr d)"
    by simp
  show ?case
  proof (cases "fa cd = None")
    case True
    from Cons.IH [OF rest Cons.prems(2), of bg bc] True gc show ?thesis
      by (simp only: stony_loop_skip) (auto simp: gc)
  next
    case False
    with Cons.prems(1) gc obtain d where d: "stony_distance x (g, cd) = Inr d" by auto
    from stony_loop_step [OF False assms(1) d, of gs m bg bc] obtain cv where
      cv: "np_array [fa cd, fs cd, d17O cd] = Inr cv" and
      step: "stony_loop ((g, cd) # gs) obs (m, bg, bc) =
       (if py_lt d m then stony_loop gs obs (d, Some g, Some cv)
        else stony_loop gs obs (m, bg, bc))" by blast
    show ?thesis
    proof (cases "py_lt d m")
      case True
      from py_lt_left_Fin [OF True] obtain a where a: "d = Fin a" by blast
      then have dn: "d \<noteq> NaN" by simp
      from Cons.IH [OF rest dn, of "Some g" "Some cv"] obtain dmin gb cb where
        r: "stony_loop gs obs (d, Some g, Some cv) = Inr (dmin, gb, cb)"
        and n: "dmin \<noteq> NaN" and le: "\<not> py_lt d dmin"
        and all: "\<forall>gc\<in>set gs. fa (snd gc) \<noteq> None \<longrightarrow>
          (\<forall>d. stony_distance x gc = Inr d \<longrightarrow> \<not> py_lt d dmin)"
        and orig: "(dmin, gb, cb) = (d, Some g, Some cv) \<or>
          (\<exists>gc\<in>set gs. fa (snd gc) \<noteq> None \<and> gb = Some (fst gc) \<and>
             stony_distance x gc = Inr dmin \<and> (\<exists>r. dmin = Fin r))"
        by blast
      have 1: "stony_loop (gc # gs) obs (m, bg, bc) = Inr (dmin, gb, cb)"
        using step True r gc by simp
      have 2: "\<not> py_lt m dmin" using py_lt_chain1 [OF True le] .
      have 3: "\<forall>gc'\<in>set (gc # gs). fa (snd gc') \<noteq> None \<longrightarrow>
          (\<forall>d'. stony_distance x gc' = Inr d' \<longrightarrow> \<not> py_lt d' dmin)"
        using all le d gc by auto
      have 4: "\<exists>gc'\<in>set (gc # gs). fa (snd gc') \<noteq> None \<and> gb = Some (fst gc') \<and>
          stony_distance x gc' = Inr dmin \<and> (\<exists>r. dmin = Fin r)"
        using orig
      proof
        assume "(dmin, gb, cb) = (d, Some g, Some cv)"
        with d a False gc show ?thesis by auto
      next
        assume "\<exists>gc\<in>set gs. fa (snd gc) \<noteq> None \<and> gb = Some (fst gc) \<and>
             stony_distance x gc = Inr dmin \<and> (\<exists>r. dmin = Fin r)"
        then show ?thesis by auto
      qed
      from 1 n 2 3 4 show ?thesis by blast
    next
      case nlt: False
      from Cons.IH [OF rest Cons.prems(2), of bg bc] obtain dmin gb cb where
        r: "stony_loop gs obs (m, bg, bc) = Inr (dmin, gb, cb)"
        and n: "dmin \<noteq> NaN" and le: "\<not> py_lt m dmin"
        and all: "\<forall>gc\<in>set gs. fa (snd gc) \<noteq> None \<longrightarrow>
          (\<forall>d. stony_distance x gc = Inr d \<longrightarrow> \<not> py_lt d dmin)"
        and orig: "(dmin, gb, cb) = (m, bg, bc) \<or>
          (\<exists>gc\<in>set gs. fa (snd gc) \<noteq> None \<and> gb = Some (fst gc) \<and>
             stony_distance x gc = Inr dmin \<and> (\<exists>r. dmin = Fin r))"
        by blast
      have 1: "stony_loop (gc # gs) obs (m, bg, bc) = Inr (dmin, gb, cb)"
        using step nlt r gc by simp
      have "\<not> py_lt d dmin" using py_lt_chain2 [OF Cons.prems(2) nlt le] .
      then have 3: "\<forall>gc'\<in>set (gc # gs). fa (snd gc') \<noteq> None \<longrightarrow>
          (\<forall>d'. stony_distance x gc' = Inr d' \<longrightarrow> \<not> py_lt d' dmin)"
        using all d gc by auto
      have 4: "(dmin, gb, cb) = (m, bg, bc) \<or> (\<exists>gc'\<in>set (gc # gs). fa (snd gc') \<noteq> None \<and> gb = Some (fst gc') \<and>
          stony_distance x gc' = Inr dmin \<and> (\<exists>r. dmin = Fin r))"
        using orig by auto
      from 1 n le 3 4 show ?thesis by blast
    qed
  qed
qed

lemma group_covariance_length: "length (group_covariance g) = 3"
  by (simp add: group_covariance_def GROUP_COVARIANCES_def)

lemma stony_fields_all:
  "list_all (\<lambda>gc. fa (snd gc) = None \<or> (fs (snd gc) \<noteq> None \<and> d17O (snd gc) \<noteq> None))
     GROUP_CENTROIDS"
  by (simp add: GROUP_CENTROIDS_def del: not_None_eq)

lemma stony_fields:
  "gc \<in> set GROUP_CENTROIDS \<Longrightarrow> fa (snd gc) \<noteq> None \<Longrightarrow>
   fs (snd gc) \<noteq> None \<and> d17O (snd gc) \<noteq> None"
  using stony_fields_all by (auto simp: list_all_iff)

lemma stony_centroid:
  assumes "gc \<in> set GROUP_CENTROIDS" and "fa (snd gc) \<noteq> None"
  shows "\<exists>a b c. np_array [fa (snd gc), fs (snd gc), d17O (snd gc)] = Inr [a, b, c]"
proof -
  from stony_fields [OF assms] assms(2) obtain a b c
    where "fa (snd gc) = Some a" "fs (snd gc) = Some b" "d17O (snd gc) = Some c" by auto
  then show ?thesis by simp
qed

lemma mahalanobis_defined:
  assumes "length x = 3" and "length c = 3"
  shows "\<exists>d. mahalanobis_distance x c (group_covariance g) = Inr d"
proof (cases "linalg_inv (group_covariance g)")
  case None
  with assms show ?thesis by (simp add: mahalanobis_distance_def)
next
  case (Some ic)
  from linalg_inv_length [OF Some] have "length ic = 3" by (simp add: group_covariance_length)
  with Some assms show ?thesis by (simp add: mahalanobis_distance_def)
qed

lemma stony_distance_defined:
  assumes "gc \<in> set GROUP_CENTROIDS" and "fa (snd gc) \<noteq> None" and "length x = 3"
  shows "\<exists>d. stony_distance x gc = Inr d"
proof -
  from stony_centroid [OF assms(1,2)] obtain a b c
    where c: "np_array [fa (snd gc), fs (snd gc), d17O (snd gc)] = Inr [a, b, c]" by blast
  from mahalanobis_defined [OF assms(3), of "[a, b, c]" "fst gc"] c show ?thesis
    by (simp add: stony_distance_def)
qed

lemma CO_member:
  "(''CO'', \<lparr>fa = Some 12, fs = Some (35 / 10), d17O = Some (- (45 / 10)), ni = None\<rparr>)
     \<in> set GROUP_CENTROIDS"
  by (simp add: GROUP_CENTROIDS_def)

lemma CO_distance_finite:
  "\<exists>r. stony_distance [a, b, c]
     (''CO'', \<lparr>fa = Some 12, fs = Some (35 / 10), d17O = Some (- (45 / 10)), ni = None\<rparr>) = Inr (Fin r)"
proof -
  have cov: "group_covariance ''CO'' = [[2, 0, 0], [0, 2, 0], [0, 0, 2]]"
    by (simp add: group_covariance_def GROUP_COVARIANCES_def)
  have q: "dot (vec_mat [a - 12, b - 35 / 10, c + 45 / 10] [[1/2, 0, 0], [0, 1/2, 0], [0, 0, 1/2]])
      [a - 12, b - 35 / 10, c + 45 / 10] =
      ((a - 12)\<^sup>2 + (b - 35 / 10)\<^sup>2 + (c + 45 / 10)\<^sup>2) / 2"
    by (simp add: dot_def vec_mat_def upt3 power2_eq_square algebra_simps)
  have "0 \<le> ((a - 12)\<^sup>2 + (b - 35 / 10)\<^sup>2 + (c + 45 / 10)\<^sup>2) / 2" by simp
  then have "\<not> ((a - 12)\<^sup>2 + (b - 35 / 10)\<^sup>2 + (c + 45 / 10)\<^sup>2) / 2 < 0" by linarith
  with q show ?thesis
    by (simp add: stony_distance_def mahalanobis_distance_def cov inv_2I np_sqrt_def)
qed

lemma zero_filled_obs:
  assumes "mineral_data ''fa'' \<noteq> Some None" "mineral_data ''fs'' \<noteq> Some None"
    "mineral_data ''d17O'' \<noteq> Some None"
  shows "np_array [get_field mineral_data ''fa'', get_field mineral_data ''fs'',
      get_field mineral_data ''d17O''] = Inr (zero_filled mineral_data)"
  using assms
  by (auto simp: get_field_def zero_filled_def zero_fill_def split: option.splits)

text \<open>
  Claim C10, as the code has it. For every input mapping with no nickel value (the key
  \<open>ni\<close> missing or \<^verbatim>\<open>None\<close>) whose stony fields \<open>fa\<close>, \<open>fs\<close>, \<open>d17O\<close> are each a number
  or missing, \<open>calculate_mcc\<close> does not fail: every missing field enters the observation
  vector as 0, and the call returns a group of the table with its distance to that
  zero-filled observation, which no other stony group undercuts, and the score
  \<open>max(0, 1 - d / 5)\<close>. Only a missing key is filled: \<^verbatim>\<open>mineral_data.get(key, 0)\<close> hands a
  stored \<^verbatim>\<open>None\<close> on to the array.
\<close>

theorem calculate_mcc_zero_fill:
  assumes "mineral_data ''ni'' = None \<or> mineral_data ''ni'' = Some None"
    and "mineral_data ''fa'' \<noteq> Some None" and "mineral_data ''fs'' \<noteq> Some None"
    and "mineral_data ''d17O'' \<noteq> Some None"
  shows "\<exists>r g cd d. calculate_mcc mineral_data grp = Inr r \<and>
      mcc_group r = Some g \<and> mcc_distance r = Fin d \<and> mcc r = max 0 (1 - d / 5) \<and>
      (g, cd) \<in> set GROUP_CENTROIDS \<and> fa cd \<noteq> None \<and>
      stony_distance (zero_filled mineral_data) (g, cd) = Inr (Fin d) \<and>
      (\<forall>gc\<in>set GROUP_CENTROIDS. fa (snd gc) \<noteq> None \<longrightarrow>
         (\<forall>d'. stony_distance (zero_filled mineral_data) gc = Inr (Fin d') \<longrightarrow> d \<le> d'))"
proof -
  let ?x = "zero_filled mineral_data"
  let ?obs = "[get_field mineral_data ''fa'', get_field mineral_data ''fs'',
      get_field mineral_data ''d17O'']"
  note obs = zero_filled_obs [OF assms(2-4)]
  have len: "length ?x = 3" by (simp add: zero_filled_def)
  have defd: "\<forall>gc\<in>set GROUP_CENTROIDS. fa (snd gc) \<noteq> None \<longrightarrow> (\<exists>d. stony_distance ?x gc = Inr d)"
    using stony_distance_defined [OF _ _ len] by blast
  have "PosInf \<noteq> NaN" by simp
  from stony_loop_invariant [OF obs defd this, of None None] obtain dmin gb cb where
    r: "stony_loop GROUP_CENTROIDS ?obs (PosInf, None, None) = Inr (dmin, gb, cb)"
    and n: "dmin \<noteq> NaN"
    and all: "\<forall>gc\<in>set GROUP_CENTROIDS. fa (snd gc) \<noteq> None \<longrightarrow>
          (\<forall>d. stony_distance ?x gc = Inr d \<longrightarrow> \<not> py_lt d dmin)"
    and orig: "(dmin, gb, cb) = (PosInf, None, None) \<or>
       (\<exists>gc\<in>set GROUP_CENTROIDS. fa (snd gc) \<noteq> None \<and> gb = Some (fst gc) \<and>
          stony_distance ?x gc = Inr dmin \<and> (\<exists>r. dmin = Fin r))"
    by blast
  have x3: "?x = [zero_fill mineral_data ''fa'', zero_fill mineral_data ''fs'',
      zero_fill mineral_data ''d17O'']" by (simp add: zero_filled_def)
  from CO_distance_finite [of "zero_fill mineral_data ''fa''" "zero_fill mineral_data ''fs''"
      "zero_fill mineral_data ''d17O''"] x3
  obtain rco where rco: "stony_distance ?x
     (''CO'', \<lparr>fa = Some 12, fs = Some (35 / 10), d17O = Some (- (45 / 10)), ni = None\<rparr>) = Inr (Fin rco)"
    by auto
  from all CO_member rco have "\<not> py_lt (Fin rco) dmin" by fastforce
  then have "dmin \<noteq> PosInf" by auto
  with orig obtain gc d where gc: "gc \<in> set GROUP_CENTROIDS" "fa (snd gc) \<noteq> None"
    "gb = Some (fst gc)" "stony_distance ?x gc = Inr dmin" "dmin = Fin d"
    by auto
  have stony: "calculate_mcc mineral_data grp = calculate_mcc_stony mineral_data grp"
    using assms(1) by (auto simp: calculate_mcc_def)
  define res where "res = \<lparr>mcc = mcc_score dmin, mcc_group = gb, mcc_distance = dmin,
      mcc_centroid = cb, ni_content = None\<rparr>"
  have 1: "calculate_mcc mineral_data grp = Inr res"
    using stony r by (simp add: calculate_mcc_stony_def res_def Let_def)
  have 2: "mcc_group res = Some (fst gc)" "mcc_distance res = Fin d" "mcc res = max 0 (1 - d / 5)"
    using gc by (simp_all add: res_def)
  have 3: "(fst gc, snd gc) \<in> set GROUP_CENTROIDS" "fa (snd gc) \<noteq> None"
    "stony_distance ?x (fst gc, snd gc) = Inr (Fin d)"
    using gc by simp_all
  have 4: "\<forall>gc'\<in>set GROUP_CENTROIDS. fa (snd gc') \<noteq> None \<longrightarrow>
         (\<forall>d'. stony_distance ?x gc' = Inr (Fin d') \<longrightarrow> d \<le> d')"
  proof (intro ballI impI allI)
    fix gc' d' assume "gc' \<in> set GROUP_CENTROIDS" "fa (snd gc') \<noteq> None"
      "stony_distance ?x gc' = Inr (Fin d')"
    with all have "\<not> py_lt (Fin d') dmin" by blast
    with gc(5) show "d \<le> d'" by simp
  qed
  from 1 2 3 4 show ?thesis by blast
qed

lemma inv_H: "linalg_inv (group_covariance ''H'') =
  Some [[428 / 763, - (200 / 763), - (670 / 763)], [- (200 / 763), 450 / 763, - (400 / 763)],
        [- (670 / 763), - (400 / 763), 21550 / 763]]"
  by (simp add: group_covariance_def GROUP_COVARIANCES_def linalg_inv_def is_square_def Let_def
      upt3 minor_def drop_col_def)

lemma inv_L: "linalg_inv (group_covariance ''L'') =
  Some [[1500 / 2927, - (725 / 2927), - (2150 / 2927)], [- (725 / 2927), 1570 / 2927, - (1400 / 2927)],
        [- (2150 / 2927), - (1400 / 2927), 66500 / 2927]]"
  by (simp add: group_covariance_def GROUP_COVARIANCES_def linalg_inv_def is_square_def Let_def
      upt3 minor_def drop_col_def)

lemma inv_LL: "linalg_inv (group_covariance ''LL'') =
  Some [[16 / 33, - (5 / 22), - (25 / 33)], [- (5 / 22), 175 / 352, - (75 / 176)],
        [- (25 / 33), - (75 / 176), 5125 / 264]]"
  by (simp add: group_covariance_def GROUP_COVARIANCES_def linalg_inv_def is_square_def Let_def
      upt3 minor_def drop_col_def)

lemma cov_default:
  "group_covariance ''CO'' = [[2, 0, 0], [0, 2, 0], [0, 0, 2]]"
  "group_covariance ''CV'' = [[2, 0, 0], [0, 2, 0], [0, 0, 2]]"
  "group_covariance ''CR'' = [[2, 0, 0], [0, 2, 0], [0, 0, 2]]"
  by (simp_all add: group_covariance_def GROUP_COVARIANCES_def)

lemma mcc_empty:
  "calculate_mcc Map.empty None =
     Inr \<lparr>mcc = max 0 (1 - sqrt (37 / 4) / 5), mcc_group = Some ''CR'',
          mcc_distance = Fin (sqrt (37 / 4)), mcc_centroid = Some [35 / 10, 2, - (15 / 10)],
          ni_content = None\<rparr>"
  by (simp add: calculate_mcc_def calculate_mcc_stony_def GROUP_CENTROIDS_def get_field_def
      mahalanobis_distance_def inv_H inv_L inv_LL cov_default inv_2I np_sqrt_def dot_def
      vec_mat_def upt3 Let_def)

theorem calculate_mcc_zero_fill_witness:
  "\<exists>r g cd d. calculate_mcc [''fa'' \<mapsto> Some (7 / 2)] None = Inr r \<and>
      mcc_group r = Some g \<and> mcc_distance r = Fin d \<and> mcc r = max 0 (1 - d / 5) \<and>
      (g, cd) \<in> set GROUP_CENTROIDS \<and>
      stony_distance [7 / 2, 0, 0] (g, cd) = Inr (Fin d)"
proof -
  have z: "zero_filled [''fa'' \<mapsto> Some (7 / 2)] = [7 / 2, 0, 0]"
    by (simp add: zero_filled_def zero_fill_def)
  have h: "[''fa'' \<mapsto> Some (7 / 2 :: real)] ''ni'' = None \<or>
      [''fa'' \<mapsto> Some (7 / 2 :: real)] ''ni'' = Some None"
    "[''fa'' \<mapsto> Some (7 / 2 :: real)] ''fa'' \<noteq> Some None"
    "[''fa'' \<mapsto> Some (7 / 2 :: real)] ''fs'' \<noteq> Some None"
    "[''fa'' \<mapsto> Some (7 / 2 :: real)] ''d17O'' \<noteq> Some None"
    by simp_all
  from calculate_mcc_zero_fill [OF h, of None] show ?thesis
    unfolding z by blast
qed

text \<open>
  A stony field that is present with the value \<^verbatim>\<open>None\<close> is not filled: with no nickel
  value the call takes the stony branch and the subtraction in \<open>mahalanobis_distance\<close>,
  which stands before the \<^verbatim>\<open>try\<close>, raises on the first group.
\<close>

theorem calculate_mcc_none_field_raises:
  "calculate_mcc [''fa'' \<mapsto> None] None = Inl TypeError"
  by (simp add: calculate_mcc_def calculate_mcc_stony_def get_field_def GROUP_CENTROIDS_def)

lemma sqrt_37_4: "sqrt (37 / 4) < 5"
proof -
  have "sqrt (37 / 4) < sqrt (5\<^sup>2)" by (simp only: real_sqrt_less_iff) simp
  then show ?thesis by simp
qed

lemma cnea_empty:
  "calculate_cnea Map.empty =
     \<lparr>cnea = 0, age_ma = 0, exposure_history = ''Unknown'', is_concordant = True, ages = [],
      uncertainties = [], concordia = None, nuclides_analyzed = []\<rparr>"
  by (simp add: calculate_cnea_def nuclide_ages_def stable_entry_def radioactive_entry_def)

lemma pbdr_empty:
  "calculate_pbdr [] =
     \<lparr>pbdr = 0, avg_hse_ratio = 0, differentiation = ''Undifferentiated (Chondritic)'',
      parent_body_type = ''Undifferentiated asteroid'', elements_analyzed = []\<rparr>"
  by (simp add: calculate_pbdr_def)

lemma smg_empty:
  "calculate_smg [] = \<lparr>smg = 0, peak_pressure_gpa = 0, shock_stage = ''S1'', pressures = None\<rparr>"
  by (simp add: calculate_smg_def)

lemma twi_empty: "calculate_twi Map.empty = 0"
  by (simp add: calculate_twi_def get_or_zero_def)

text \<open>
  Claim C4, as the code has it. On the empty input mapping none of the six functions
  raises. \<open>calculate_pbdr\<close>, \<open>calculate_cnea\<close>, \<open>calculate_smg\<close> and \<open>calculate_twi\<close> return
  their zero result (differentiation "Undifferentiated (Chondritic)", exposure history
  "Unknown", shock stage "S1", index 0). \<open>calculate_iaf\<close> and \<open>calculate_mcc\<close> classify the
  zero-filled observation instead: the first returns the score 1 for the group CI at
  distance 0, the second the group CR at distance \<open>sqrt (37 / 4)\<close> with a positive score.
\<close>

theorem empty_input_results:
  "calculate_pbdr [] =
     \<lparr>pbdr = 0, avg_hse_ratio = 0, differentiation = ''Undifferentiated (Chondritic)'',
      parent_body_type = ''Undifferentiated asteroid'', elements_analyzed = []\<rparr> \<and>
   calculate_cnea Map.empty =
     \<lparr>cnea = 0, age_ma = 0, exposure_history = ''Unknown'', is_concordant = True, ages = [],
      uncertainties = [], concordia = None, nuclides_analyzed = []\<rparr> \<and>
   calculate_smg [] =
     \<lparr>smg = 0, peak_pressure_gpa = 0, shock_stage = ''S1'', pressures = None\<rparr> \<and>
   calculate_twi Map.empty = 0 \<and>
   iaf (calculate_iaf Map.empty) = 1 \<and>
   iaf_group (calculate_iaf Map.empty) = Some ''CI'' \<and>
   iaf_distance (calculate_iaf Map.empty) = Fin 0 \<and>
   is_outlier (calculate_iaf Map.empty) = False \<and>
   calculate_mcc Map.empty None =
     Inr \<lparr>mcc = 1 - sqrt (37 / 4) / 5, mcc_group = Some ''CR'',
          mcc_distance = Fin (sqrt (37 / 4)), mcc_centroid = Some [35 / 10, 2, - (15 / 10)],
          ni_content = None\<rparr> \<and>
   0 < 1 - sqrt (37 / 4) / 5"
proof -
  from sqrt_37_4 have pos: "0 < 1 - sqrt (37 / 4) / 5" by simp
  then have "max 0 (1 - sqrt (37 / 4) / 5) = 1 - sqrt (37 / 4) / 5" by simp
  with mcc_empty have "calculate_mcc Map.empty None =
     Inr \<lparr>mcc = 1 - sqrt (37 / 4) / 5, mcc_group = Some ''CR'',
          mcc_distance = Fin (sqrt (37 / 4)), mcc_centroid = Some [35 / 10, 2, - (15 / 10)],
          ni_content = None\<rparr>" by simp
  with pos pbdr_empty cnea_empty smg_empty twi_empty iaf_empty show ?thesis by blast
qed

theorem empty_input_results_witness:
  "calculate_twi Map.empty = 0 \<and> iaf (calculate_iaf Map.empty) = 1 \<and>
   pbdr (calculate_pbdr []) = 0"
  using empty_input_results by simp

text \<open>
  On the empty mapping \<open>calculate_iaf\<close> reports a perfect match with the group CI, and
  \<open>calculate_mcc\<close> the group CR: neither result is zero or "unknown".
\<close>

theorem empty_input_iaf_not_zero:
  "iaf (calculate_iaf Map.empty) = 1 \<and>
   iaf_group (calculate_iaf Map.empty) = Some ''CI'' \<and>
   calculate_mcc Map.empty None =
     Inr \<lparr>mcc = max 0 (1 - sqrt (37 / 4) / 5), mcc_group = Some ''CR'',
          mcc_distance = Fin (sqrt (37 / 4)), mcc_centroid = Some [35 / 10, 2, - (15 / 10)],
          ni_content = None\<rparr>"
  using iaf_empty mcc_empty by blast


subsection \<open>Entry simulation at the reference input\<close>

lemma altitude_eq: "altitude i = 120 - 120 * real i / 2999"
  by (simp add: altitude_def)

lemma altitude_ge_10: "i \<le> 2749 \<Longrightarrow> \<not> altitude i < 10"
proof -
  assume "i \<le> 2749"
  then have "real i \<le> 2749" by simp
  then show ?thesis unfolding altitude_eq by (simp add: field_simps)
qed

lemma altitude_le_80: "1000 \<le> i \<Longrightarrow> altitude i \<le> 80"
proof -
  assume "1000 \<le> i"
  then have "1000 \<le> real i" by simp
  then show ?thesis unfolding altitude_eq by (simp add: field_simps)
qed

lemma altitude_2750: "altitude 2750 < 10"
  by (simp add: altitude_eq)

lemma atp_loop_append:
  "\<forall>i\<in>set xs. \<not> altitude i < 10 \<Longrightarrow>
   atp_loop v d r (xs @ ys) s = atp_loop v d r ys (atp_loop v d r xs s)"
  by (induction xs arbitrary: s) simp_all

lemma reference_prefix_0: "reference_prefix 0 = atp_initial"
  by (simp add: reference_prefix_def)

lemma reference_prefix_Suc:
  assumes "Suc n \<le> 2749"
  shows "reference_prefix (Suc n) = atp_step 18600 19 3300 (Suc n) (reference_prefix n)"
proof -
  have split: "[1..<Suc (Suc n)] = [1..<Suc n] @ [Suc n]" by simp
  have pre: "\<forall>i\<in>set [1..<Suc n]. \<not> altitude i < 10"
    using assms altitude_ge_10 by auto
  have last: "\<not> altitude (Suc n) < 10" using assms by (rule altitude_ge_10)
  show ?thesis
    unfolding reference_prefix_def split atp_loop_append [OF pre]
    using last by simp
qed

lemma atp_integration_reference:
  "atp_integration 18600 19 3300 = reference_prefix 2749"
proof -
  have "[1..<3000] = [1..<2750] @ [2750..<3000]"
    using upt_add_eq_append [of 1 2750 250] by simp
  moreover have "[2750..<3000] = 2750 # [2751..<3000]"
    by (simp add: upt_conv_Cons)
  moreover have "\<forall>i\<in>set [1..<2750]. \<not> altitude i < 10"
    using altitude_ge_10 by auto
  ultimately show ?thesis
    by (simp add: atp_integration_def reference_prefix_def atp_loop_append altitude_2750
        del: upt_Suc)
qed

lemma atp_step_T:
  "st_T (atp_step 18600 19 3300 i s) =
     st_T s + (reference_flux i - 567 / 10 ^ 10 * (88 / 100) * st_T s ^ 4
               - 4 / 19 * (st_T s - 250)) / 3135000000"
  by (simp add: atp_step_def reference_flux_def STEFAN_BOLTZMANN_def Let_def)

lemma atp_step_T_max:
  "st_T_max (atp_step v d r i s) = max (st_T_max s) (st_T (atp_step v d r i s))"
  by (simp add: atp_step_def Let_def max_def)

lemma atmos_density_nonneg: "0 \<le> atmos_density h"
  by (simp add: atmos_density_def)

lemma reference_flux_nonneg: "0 \<le> reference_flux i"
  by (simp add: reference_flux_def Let_def atmos_density_nonneg)

lemma reference_flux_low:
  assumes "1000 \<le> i"
  shows "reference_flux i = 73900299375 * ((6 * real i - 2999) / 14995) ^ 4"
proof -
  from altitude_le_80 [OF assms] have h: "\<not> altitude i > 80" "\<not> altitude i > 100" by simp_all
  have u: "1 - altitude i / 100 = (6 * real i - 2999) / 14995"
    by (simp add: altitude_eq field_simps)
  from h show ?thesis
    by (simp add: reference_flux_def Let_def atmos_density_def u)
qed

lemma loss_bound:
  fixes x y :: real
  assumes "x \<le> 64665216" and "y \<le> 1211"
  shows "(x + y) / 3135000000 \<le> 21 / 1000"
  using assms by simp

lemma step_bound:
  assumes "st_T s < 6000" and "0 \<le> st_T s"
  shows "st_T s + reference_flux i / 3135000000 - 21 / 1000
           \<le> st_T (atp_step 18600 19 3300 i s)"
proof -
  let ?T = "st_T s"
  from assms have "?T ^ 4 \<le> 6000 ^ 4" by (intro power_mono) simp_all
  then have rad: "567 / 10 ^ 10 * (88 / 100) * ?T ^ 4 \<le> 64665216" by simp
  from assms have cond: "4 / 19 * (?T - 250) \<le> 1211" by simp
  note loss = loss_bound [OF rad cond]
  have "st_T (atp_step 18600 19 3300 i s) =
      ?T + reference_flux i / 3135000000
      - (567 / 10 ^ 10 * (88 / 100) * ?T ^ 4 + 4 / 19 * (?T - 250)) / 3135000000"
    unfolding atp_step_T by (simp only: diff_divide_distrib add_divide_distrib diff_diff_eq)
  with loss show ?thesis by linarith
qed

lemma pow5_diff:
  fixes u w :: real
  assumes "0 \<le> w" and "w \<le> u"
  shows "u ^ 5 - w ^ 5 \<le> 5 * (u - w) * u ^ 4"
proof -
  from assms have u: "0 \<le> u" by simp
  have t1: "u ^ 3 * w \<le> u ^ 3 * u" using assms u by (intro mult_left_mono) simp_all
  have "w ^ 2 \<le> u ^ 2" using assms by (intro power_mono) simp_all
  then have t2: "u ^ 2 * w ^ 2 \<le> u ^ 2 * u ^ 2" by (intro mult_left_mono) simp_all
  have "w ^ 3 \<le> u ^ 3" using assms by (intro power_mono) simp_all
  then have t3: "u * w ^ 3 \<le> u * u ^ 3" using u by (intro mult_left_mono) simp_all
  have t4: "w ^ 4 \<le> u ^ 4" using assms by (intro power_mono) simp_all
  have sum: "u ^ 4 + u ^ 3 * w + u ^ 2 * w ^ 2 + u * w ^ 3 + w ^ 4 \<le> 5 * u ^ 4"
    using t1 t2 t3 t4 by (simp add: power_numeral_reduce algebra_simps)
  have "u ^ 5 - w ^ 5 = (u - w) * (u ^ 4 + u ^ 3 * w + u ^ 2 * w ^ 2 + u * w ^ 3 + w ^ 4)"
    by (simp add: power_numeral_reduce algebra_simps)
  also have "\<dots> \<le> (u - w) * (5 * u ^ 4)"
    using sum assms by (intro mult_left_mono) simp_all
  finally show ?thesis by (simp add: algebra_simps)
qed

lemma invariant_step:
  assumes n: "Suc n \<le> 2749"
    and inv: "st_T (reference_prefix n) \<le> st_T_max (reference_prefix n)"
    and dis: "6000 \<le> st_T_max (reference_prefix n) \<or> L \<le> st_T (reference_prefix n)"
    and L: "0 \<le> L"
    and gain: "L' \<le> L + reference_flux (Suc n) / 3135000000 - 21 / 1000"
  shows "st_T (reference_prefix (Suc n)) \<le> st_T_max (reference_prefix (Suc n)) \<and>
     (6000 \<le> st_T_max (reference_prefix (Suc n)) \<or> L' \<le> st_T (reference_prefix (Suc n)))"
proof -
  let ?s = "reference_prefix n"
  let ?s' = "atp_step 18600 19 3300 (Suc n) ?s"
  have eq: "reference_prefix (Suc n) = ?s'" using n by (rule reference_prefix_Suc)
  have mx: "st_T_max ?s' = max (st_T_max ?s) (st_T ?s')" by (rule atp_step_T_max)
  have 1: "st_T ?s' \<le> st_T_max ?s'" unfolding mx by simp
  have 2: "6000 \<le> st_T_max ?s' \<or> L' \<le> st_T ?s'"
  proof (cases "6000 \<le> st_T_max ?s")
    case True
    then show ?thesis unfolding mx by (simp add: le_max_iff_disj)
  next
    case False
    with dis have low: "L \<le> st_T ?s" by simp
    from False inv have up: "st_T ?s < 6000" by simp
    from low L have nn: "0 \<le> st_T ?s" by simp
    from step_bound [OF up nn, of "Suc n"] low gain have "L' \<le> st_T ?s'" by linarith
    then show ?thesis by simp
  qed
  from 1 2 show ?thesis unfolding eq by simp
qed

lemma phase_high:
  "n \<le> 1000 \<Longrightarrow>
   st_T (reference_prefix n) \<le> st_T_max (reference_prefix n) \<and>
   (6000 \<le> st_T_max (reference_prefix n) \<or>
    250 - 21 / 1000 * real n \<le> st_T (reference_prefix n))"
proof (induction n)
  case 0
  show ?case by (simp add: reference_prefix_0 atp_initial_def)
next
  case (Suc n)
  then have n: "n \<le> 1000" and sn: "Suc n \<le> 2749" by simp_all
  from n have "real n \<le> 1000" by simp
  then have L: "0 \<le> 250 - 21 / 1000 * real n" by simp
  have gain: "250 - 21 / 1000 * real (Suc n)
      \<le> 250 - 21 / 1000 * real n + reference_flux (Suc n) / 3135000000 - 21 / 1000"
  proof -
    have "0 \<le> reference_flux (Suc n) / 3135000000"
      using reference_flux_nonneg [of "Suc n"] by simp
    moreover have "real (Suc n) = real n + 1" by simp
    ultimately show ?thesis by (simp only: ring_distribs)
  qed
  from Suc.IH [OF n] invariant_step [OF sn _ _ L gain] show ?case by blast
qed

lemma lower_step:
  assumes "1000 \<le> n"
  shows "reference_lower (Suc n) \<le> reference_lower n + reference_flux (Suc n) / 3135000000 - 21 / 1000"
proof -
  let ?w = "(6 * real n - 2999) / 14995"
  let ?u = "(6 * real (Suc n) - 2999) / 14995"
  from assms have "1000 \<le> real n" by simp
  then have w: "0 \<le> ?w" by simp
  have wu: "?w \<le> ?u" by (simp add: divide_right_mono)
  have d: "?u - ?w = 6 / 14995" by (simp add: field_simps)
  from pow5_diff [OF w wu] have "?u ^ 5 - ?w ^ 5 \<le> 5 * (6 / 14995) * ?u ^ 4"
    unfolding d .
  then have "73900299375 / 3135000000 * (14995 / 30) * (?u ^ 5 - ?w ^ 5)
      \<le> 73900299375 / 3135000000 * (14995 / 30) * (5 * (6 / 14995) * ?u ^ 4)"
    by (intro mult_left_mono) simp_all
  also have "\<dots> = 73900299375 * ?u ^ 4 / 3135000000" by simp
  finally have key: "73900299375 / 3135000000 * (14995 / 30) * (?u ^ 5 - ?w ^ 5)
      \<le> 73900299375 * ?u ^ 4 / 3135000000" .
  from assms have "1000 \<le> Suc n" by simp
  from reference_flux_low [OF this]
  have fl: "reference_flux (Suc n) / 3135000000 = 73900299375 * ?u ^ 4 / 3135000000" by simp
  have "reference_lower (Suc n) - reference_lower n =
      - (21 / 1000) + 73900299375 / 3135000000 * (14995 / 30) * (?u ^ 5 - ?w ^ 5)"
    unfolding reference_lower_def by (simp add: algebra_simps)
  with key fl show ?thesis by linarith
qed

lemma lower_nonneg:
  assumes "1000 \<le> n" and "n \<le> 2749"
  shows "0 \<le> reference_lower n"
proof -
  from assms have r: "1000 \<le> real n" "real n \<le> 2749" by simp_all
  then have "(3001 / 14995 :: real) \<le> (6 * real n - 2999) / 14995" by simp
  then have "(3001 / 14995 :: real) ^ 5 \<le> ((6 * real n - 2999) / 14995) ^ 5"
    by (intro power_mono) simp_all
  then have "0 \<le> 73900299375 / 3135000000 * (14995 / 30)
       * (((6 * real n - 2999) / 14995) ^ 5 - (3001 / 14995) ^ 5)" by simp
  moreover from r have "0 \<le> 250 - 21 / 1000 * real n" by simp
  ultimately show ?thesis unfolding reference_lower_def by linarith
qed

lemma lower_1000: "reference_lower 1000 = 250 - 21 / 1000 * real (1000::nat)"
  by (simp add: reference_lower_def)

lemma phase_low:
  "1000 \<le> n \<Longrightarrow> n \<le> 2749 \<Longrightarrow>
   st_T (reference_prefix n) \<le> st_T_max (reference_prefix n) \<and>
   (6000 \<le> st_T_max (reference_prefix n) \<or> reference_lower n \<le> st_T (reference_prefix n))"
proof (induction n rule: nat_induct_at_least)
  case base
  from phase_high [of 1000] show ?case unfolding lower_1000 by simp
next
  case (Suc n)
  then have n: "n \<le> 2749" and sn: "Suc n \<le> 2749" by simp_all
  note IH = Suc.IH [OF n]
  from IH invariant_step [OF sn _ _ lower_nonneg [OF Suc.hyps n] lower_step [OF Suc.hyps]]
  show ?case by blast
qed

lemma lower_2749: "6000 \<le> reference_lower 2749"
  by (simp add: reference_lower_def power_divide)

lemma reference_peak: "6000 \<le> st_T_max (atp_integration 18600 19 3300)"
proof -
  from phase_low [of 2749] lower_2749 show ?thesis
    unfolding atp_integration_reference by auto
qed

text \<open>
  Claim C3, as the code has it. For an entry with velocity above 18 km/s and diameter
  above 15 m (the reference input 18.6 km/s, 19 m, LL5 among them) \<open>calculate_atp\<close> of
  parameters/atp.py returns the peak temperature 4820 \<degree>C, which lies in [4000, 5500] \<degree>C,
  and the precision field 180. The peak is the literal \<open>4820 + 273.15\<close> K that the code
  substitutes after the loop under exactly this condition, whatever the loop produced.
\<close>

theorem calculate_atp_peak_override:
  assumes "18000 < (case velocity_km_s p of Some v \<Rightarrow> v | None \<Rightarrow> 186 / 10) * 1000"
    and "15 < (case diameter_m p of Some d \<Rightarrow> d | None \<Rightarrow> 19)"
    and "(case density_kg_m3 p of Some d \<Rightarrow> d | None \<Rightarrow> 3300) \<noteq> 0"
  shows "\<exists>r. calculate_atp p = Inr r \<and> T_max_k r = 4820 + 27315 / 100 \<and> T_max_c r = 4820 \<and>
           4000 \<le> T_max_c r \<and> T_max_c r \<le> 5500 \<and> T_max_precision r = 180"
  using assms by (simp add: calculate_atp_def Let_def)

theorem calculate_atp_peak_override_witness:
  "\<exists>r. calculate_atp chelyabinsk = Inr r \<and> T_max_k r = 4820 + 27315 / 100 \<and>
       T_max_c r = 4820 \<and> T_max_precision r = 180"
proof -
  have "18000 < (case velocity_km_s chelyabinsk of Some v \<Rightarrow> v | None \<Rightarrow> 186 / 10) * 1000"
    and "15 < (case diameter_m chelyabinsk of Some d \<Rightarrow> d | None \<Rightarrow> 19)"
    and "(case density_kg_m3 chelyabinsk of Some d \<Rightarrow> d | None \<Rightarrow> 3300) \<noteq> 0"
    by (simp_all add: chelyabinsk_def)
  from calculate_atp_peak_override [OF this] show ?thesis by blast
qed

text \<open>
  At the reference input the integration loop itself ends with a peak of at least 6000 K,
  above 5500 \<degree>C, while the value returned is the literal 5093.15 K: the returned peak is
  not the one the loop produced.
\<close>

theorem atp_peak_not_from_loop:
  "map_sum id T_max_k (calculate_atp chelyabinsk) = Inr (4820 + 27315 / 100) \<and>
   6000 \<le> st_T_max (atp_integration 18600 19 3300) \<and>
   5500 < st_T_max (atp_integration 18600 19 3300) - 27315 / 100"
proof -
  have "map_sum id T_max_k (calculate_atp chelyabinsk) = Inr (4820 + 27315 / 100)"
    by (simp add: calculate_atp_def chelyabinsk_def Let_def)
  with reference_peak show ?thesis by simp
qed


end
